theory Spec2Isabelle
  imports Main "HOL-Library.Sublist"
begin

section \<open>Data model (types module)\<close>

text \<open>
  The enums and string-literal unions of the types module are datatypes, the interfaces are
  records. An optional field \<^verbatim>\<open>f?: T\<close> is a field of type \<open>T option\<close>, with \<open>None\<close> for
  \<^verbatim>\<open>undefined\<close>. Field names that several interfaces share (\<^verbatim>\<open>id\<close>, \<^verbatim>\<open>type\<close>, \<^verbatim>\<open>status\<close>, ...)
  carry the prefix of their interface.
\<close>

datatype ProcessingStep = Input | Analyzing | Planning | Preview

datatype ImageLabel = label_main | label_detail | label_texture | label_usage | label_other

datatype DouyinSectionType =
    header_impact | product_display | selling_point_fabe | scenario_usage
  | detail_craft | specs_size | trust_endorsement | promotion_cta

datatype HeroImageType = front_80 | side_cut | detail_zoom | scenario_life | trust_brand

datatype Status = Pending | Generating | Completed | Failed

datatype Language = zh | en

datatype VideoProvider = google | grok

record ReferenceImage =
  img_id :: string
  base64 :: string
  mimeType :: string
  label :: ImageLabel

record ProductInput =
  referenceImages :: "ReferenceImage list"
  name :: string
  features :: string
  targetAudience :: string

record HeroImage =
  hero_id :: string
  hero_type :: HeroImageType
  hero_title :: string
  hero_imagePrompt :: string
  hero_referenceImageId :: "string option"
  hero_generatedImageUrl :: "string option"
  hero_status :: Status
  hero_isEditing :: "bool option"
  generatedVideoUrl :: "string option"
  videoStatus :: "Status option"
  videoPrompt :: "string option"
  isVideoEditing :: "bool option"

record GeneratedSection =
  sec_id :: string
  sec_type :: DouyinSectionType
  sec_title :: string
  sec_content :: string
  sec_overlayText :: "string option"
  sec_imagePrompt :: string
  sec_referenceImageId :: "string option"
  sec_generatedImageUrl :: "string option"
  sec_status :: Status
  sec_isEditing :: "bool option"

record AnalysisResult =
  refinedTitle :: string
  refinedSellingPoints :: "string list"
  priceEstimate :: string
  marketingTone :: string
  heroImages :: "HeroImage list"
  sections :: "GeneratedSection list"

record AppSettings =
  proxyUrl :: "string option"
  googleApiKey :: "string option"
  videoProvider :: "VideoProvider option"
  grokApiKey :: "string option"

section \<open>JavaScript helpers\<close>

text \<open>
  A thrown value is an \<^verbatim>\<open>Error\<close> object with its message: every \<^verbatim>\<open>throw\<close> of the services
  module throws \<^verbatim>\<open>new Error(...)\<close>, and the handlers read \<^verbatim>\<open>e.message\<close> as a string.
  A function that can throw returns \<open>JsError + 'a\<close>, with \<open>Inl\<close> for the throw.
\<close>

datatype JsError = Error (message: string)

text \<open>Truthiness of an optional string: \<^verbatim>\<open>undefined\<close> and \<^verbatim>\<open>''\<close> are falsy.\<close>

fun truthy :: "string option \<Rightarrow> bool" where
  "truthy None = False"
| "truthy (Some s) = (s \<noteq> [])"

text \<open>\<^verbatim>\<open>a || b\<close> on optional strings.\<close>

definition js_or :: "string option \<Rightarrow> string option \<Rightarrow> string option" where
  "js_or a b = (if truthy a then a else b)"

text \<open>\<^verbatim>\<open>s || d\<close> with a string literal \<open>d\<close> on the right: always a string.\<close>

definition or_default :: "string option \<Rightarrow> string \<Rightarrow> string" where
  "or_default a d = (case a of None \<Rightarrow> d | Some s \<Rightarrow> if s = [] then d else s)"

text \<open>\<^verbatim>\<open>String.prototype.startsWith\<close> and \<^verbatim>\<open>String.prototype.includes\<close>.\<close>

fun startsWith :: "string \<Rightarrow> string \<Rightarrow> bool" where
  "startsWith s [] = True"
| "startsWith [] (p # ps) = False"
| "startsWith (c # cs) (p # ps) = (c = p \<and> startsWith cs ps)"

fun str_includes :: "string \<Rightarrow> string \<Rightarrow> bool" where
  "str_includes [] p = (p = [])"
| "str_includes (c # cs) p = (startsWith (c # cs) p \<or> str_includes cs p)"

text \<open>
  \<^verbatim>\<open>String.prototype.trim\<close>. A string is the list of the bytes of its UTF-8 encoding, so a
  character outside ASCII is a group of bytes. The white space that \<^verbatim>\<open>trim\<close> strips is the
  WhiteSpace and LineTerminator of ECMAScript: U+0009 to U+000D, U+0020, U+00A0, U+1680,
  U+2000 to U+200A, U+2028, U+2029, U+202F, U+205F, U+3000 and U+FEFF, each given here by
  its encoding.
\<close>

definition whiteSpace :: "string list" where
  "whiteSpace =
     [[CHR 0x09], [CHR 0x0A], [CHR 0x0B], [CHR 0x0C], [CHR 0x0D], [CHR 0x20],
      [CHR 0xC2, CHR 0xA0],
      [CHR 0xE1, CHR 0x9A, CHR 0x80],
      [CHR 0xE2, CHR 0x80, CHR 0x80], [CHR 0xE2, CHR 0x80, CHR 0x81],
      [CHR 0xE2, CHR 0x80, CHR 0x82], [CHR 0xE2, CHR 0x80, CHR 0x83],
      [CHR 0xE2, CHR 0x80, CHR 0x84], [CHR 0xE2, CHR 0x80, CHR 0x85],
      [CHR 0xE2, CHR 0x80, CHR 0x86], [CHR 0xE2, CHR 0x80, CHR 0x87],
      [CHR 0xE2, CHR 0x80, CHR 0x88], [CHR 0xE2, CHR 0x80, CHR 0x89],
      [CHR 0xE2, CHR 0x80, CHR 0x8A],
      [CHR 0xE2, CHR 0x80, CHR 0xA8], [CHR 0xE2, CHR 0x80, CHR 0xA9],
      [CHR 0xE2, CHR 0x80, CHR 0xAF],
      [CHR 0xE2, CHR 0x81, CHR 0x9F],
      [CHR 0xE3, CHR 0x80, CHR 0x80],
      [CHR 0xEF, CHR 0xBB, CHR 0xBF]]"

text \<open>
  Stripping, from the front of a string, every leading group of bytes that is one of the
  given groups (none of them empty).
\<close>

fun stripLeading :: "string list \<Rightarrow> string \<Rightarrow> string" where
  "stripLeading ws [] = []"
| "stripLeading ws (c # cs) =
     (case find (\<lambda>w. startsWith (c # cs) w) ws of
        None \<Rightarrow> c # cs
      | Some w \<Rightarrow> stripLeading ws (drop (length w - 1) cs))"

text \<open>The end of the string is stripped on the reversed bytes, with the groups reversed.\<close>

definition trim :: "string \<Rightarrow> string" where
  "trim s = rev (stripLeading (map rev whiteSpace) (rev (stripLeading whiteSpace s)))"

text \<open>
  \<^verbatim>\<open>Math.round(a / b)\<close> for natural \<open>a\<close> and positive \<open>b\<close>: halves round up. Where
  \<open>compressImage\<close> uses it the operands are pixel counts and the quotient is at most 1024,
  so the quotient in double precision rounds to the same integer as the exact one.
\<close>

definition mathRoundDiv :: "nat \<Rightarrow> nat \<Rightarrow> nat" where
  "mathRoundDiv a b = (2 * a + b) div (2 * b)"

section \<open>Generation client (services module)\<close>

subsection \<open>The environment\<close>

text \<open>
  What the services module reaches outside the program is a parameter of the model: the
  settings record that \<^verbatim>\<open>loadSettings\<close> reads, \<^verbatim>\<open>process.env.API_KEY\<close>, the browser's image
  decoder and canvas encoder, the remote endpoints, and \<^verbatim>\<open>JSON.parse\<close>. An endpoint is a
  function of the request it receives; a call that throws returns \<open>Inl\<close>.
\<close>

datatype ImageLoad = LoadError | Loaded nat nat

text \<open>
  A \<^verbatim>\<open>fetch\<close> followed by \<^verbatim>\<open>.json()\<close>: the fetch rejects, or resolves with \<^verbatim>\<open>ok\<close> false (and
  a status text), or the body fails to parse, or the body is read.
\<close>

datatype 'a FetchJson = FetchRejects string | NotOk string | JsonRejects string | Body 'a

record GenData =
  success :: bool
  task_id :: "string option"
  gen_error :: "string option"

text \<open>
  A field of a parsed body that a template literal prints: absent, \<^verbatim>\<open>null\<close>, or a string.
  Where a field is only tested for truthiness, absent and \<^verbatim>\<open>null\<close> are both \<open>None\<close>.
\<close>

datatype JsonText = Undefined | Null | Text string

fun templateText :: "JsonText \<Rightarrow> string" where
  "templateText Undefined = ''undefined''"
| "templateText Null = ''null''"
| "templateText (Text s) = s"

record StatusData =
  task_status :: string
  video_url :: "string option"
  task_error :: JsonText

record Env =
  settings :: AppSettings
  envApiKey :: "string option"
  loadImage :: "string \<Rightarrow> string \<Rightarrow> ImageLoad"
  canvasJpeg :: "string \<Rightarrow> string \<Rightarrow> nat \<Rightarrow> nat \<Rightarrow> string"
  analysisContent :: "ReferenceImage list \<Rightarrow> string \<Rightarrow> string \<Rightarrow> Language \<Rightarrow> JsError + string option"
  jsonParse :: "string \<Rightarrow> JsError + AnalysisResult"
  imageContent :: "string \<Rightarrow> string \<Rightarrow> string \<Rightarrow> JsError + string option list"
  veoVideo :: "string \<Rightarrow> string \<Rightarrow> string \<Rightarrow> (JsError + string) option"
  grokGenerate :: "string \<Rightarrow> string \<Rightarrow> string \<Rightarrow> GenData FetchJson"
  grokTask :: "string \<Rightarrow> string \<Rightarrow> nat \<Rightarrow> StatusData FetchJson"
  clearAppStateRejects :: bool
  apiKeyError :: "Language \<Rightarrow> string"

text \<open>
  \<^item> \<open>loadImage b m\<close>: loading \<^verbatim>\<open>data:m;base64,b\<close> into an \<^verbatim>\<open>Image\<close> fires \<^verbatim>\<open>onerror\<close>, or
    \<^verbatim>\<open>onload\<close> with \<^verbatim>\<open>img.width\<close> and \<^verbatim>\<open>img.height\<close>.
  \<^item> \<open>canvasJpeg b m w h\<close>: the base64 payload of \<^verbatim>\<open>canvas.toDataURL('image/jpeg', 0.8)\<close>
    after that image was drawn on a canvas of \<open>w\<close> by \<open>h\<close> pixels.
  \<^item> \<open>analysisContent\<close>: \<^verbatim>\<open>response.text\<close> of the analysis request, built from the
    processed images, the name, the features and the language.
  \<^item> \<open>imageContent prompt data mime\<close>: the parts of the first candidate of the image
    request, each part given by the data of its \<^verbatim>\<open>inlineData\<close>, if it has one.
  \<^item> \<open>veoVideo\<close>: what \<^verbatim>\<open>generateVeoVideo\<close> settles with; its polling loop has no bound,
    and \<open>None\<close> stands for the call that never settles.
  \<^item> \<open>grokGenerate key image prompt\<close>, \<open>grokTask key taskId i\<close>: the job submission, and
    the \<open>i\<close>-th status request for a task.
  \<^item> \<open>clearAppStateRejects\<close>: the promise \<^verbatim>\<open>clearAppState\<close> returns rejects (its
    \<^verbatim>\<open>try\<close> does not await the request it returns).
  \<^item> \<open>apiKeyError\<close>: \<^verbatim>\<open>translations[language].apiKeyError\<close>.
\<close>

subsection \<open>getApiKey, getAiClient\<close>

definition getApiKey :: "Env \<Rightarrow> JsError + string" where
  "getApiKey env =
     (case js_or (map_option trim (googleApiKey (settings env))) (envApiKey env) of
        None \<Rightarrow> Inl (Error ''API Key not set. Please configure it in settings.'')
      | Some apiKey \<Rightarrow>
          if apiKey = [] then Inl (Error ''API Key not set. Please configure it in settings.'')
          else Inr apiKey)"

text \<open>The client: the key, and the proxy as base URL when one is set.\<close>

definition getAiClient :: "Env \<Rightarrow> JsError + string \<times> string option" where
  "getAiClient env =
     (case getApiKey env of
        Inl e \<Rightarrow> Inl e
      | Inr apiKey \<Rightarrow>
          Inr (apiKey,
               case proxyUrl (settings env) of
                 None \<Rightarrow> None
               | Some u \<Rightarrow> if u \<noteq> [] \<and> trim u \<noteq> [] then Some (trim u) else None))"

subsection \<open>compressImage\<close>

definition MAX_SIZE :: nat where
  "MAX_SIZE = 1024"

text \<open>The size of the canvas, from the size of the loaded image.\<close>

definition canvasSize :: "nat \<Rightarrow> nat \<Rightarrow> nat \<times> nat" where
  "canvasSize width height =
     (if width > MAX_SIZE \<or> height > MAX_SIZE then
        (if width > height then (MAX_SIZE, mathRoundDiv (height * MAX_SIZE) width)
         else (mathRoundDiv (width * MAX_SIZE) height, MAX_SIZE))
      else (width, height))"

text \<open>The result is the pair \<^verbatim>\<open>{ data, mimeType }\<close>.\<close>

definition compressImage :: "Env \<Rightarrow> string \<Rightarrow> string \<Rightarrow> string \<times> string" where
  "compressImage env base64Str mime =
     (case loadImage env base64Str mime of
        Loaded w h \<Rightarrow>
          (case canvasSize w h of
             (width, height) \<Rightarrow> (canvasJpeg env base64Str mime width height, ''image/jpeg''))
      | LoadError \<Rightarrow> (base64Str, mime))"

subsection \<open>analyzeProductData\<close>

definition processedImages :: "Env \<Rightarrow> ReferenceImage list \<Rightarrow> ReferenceImage list" where
  "processedImages env images =
     map (\<lambda>img. case compressImage env (base64 img) (mimeType img) of
                  (d, m) \<Rightarrow> img\<lparr>base64 := d, mimeType := m\<rparr>) images"

definition analyzeProductData ::
  "Env \<Rightarrow> ReferenceImage list \<Rightarrow> string \<Rightarrow> string \<Rightarrow> Language \<Rightarrow> JsError + AnalysisResult" where
  "analyzeProductData env images nm feats lang =
     (case getAiClient env of
        Inl e \<Rightarrow> Inl e
      | Inr ai \<Rightarrow>
          (case analysisContent env (processedImages env images) nm feats lang of
             Inl e \<Rightarrow> Inl e
           | Inr txt \<Rightarrow>
               if \<not> truthy txt then Inl (Error ''No analysis generated'')
               else jsonParse env (or_default txt [])))"

subsection \<open>generateProductImage\<close>

text \<open>The loop over the parts returns at the first part that has \<^verbatim>\<open>inlineData\<close>.\<close>

fun firstInlineData :: "string option list \<Rightarrow> JsError + string" where
  "firstInlineData [] = Inl (Error ''No image data in response'')"
| "firstInlineData (None # parts) = firstInlineData parts"
| "firstInlineData (Some d # parts) = Inr (''data:image/png;base64,'' @ d)"

definition generateProductImage :: "Env \<Rightarrow> string \<Rightarrow> string \<Rightarrow> string \<Rightarrow> JsError + string" where
  "generateProductImage env referenceImageBase64 referenceMimeType prompt =
     (case getAiClient env of
        Inl e \<Rightarrow> Inl e
      | Inr ai \<Rightarrow>
          (case compressImage env referenceImageBase64 referenceMimeType of
             (compressedData, compressedMime) \<Rightarrow>
               (case (case imageContent env prompt compressedData compressedMime of
                        Inl e \<Rightarrow> Inl e
                      | Inr parts \<Rightarrow> firstInlineData parts) of
                  Inr url \<Rightarrow> Inr url
                | Inl e \<Rightarrow>
                    if str_includes (message e) ''403'' then
                      Inl (Error ''Permission Denied (403). It seems your API Key supports the model but not 2K resolution or the payload was too large. (Optimization applied, please retry).'')
                    else Inl e)))"

subsection \<open>generateGrokVideo\<close>

text \<open>\<^verbatim>\<open>imageBytes.replace(/^data:image\/\w+;base64,/, "")\<close>.\<close>

definition isWordChar :: "char \<Rightarrow> bool" where
  "isWordChar c =
     (let n = (of_char c :: nat)
      in (48 \<le> n \<and> n \<le> 57) \<or> (65 \<le> n \<and> n \<le> 90) \<or> n = 95 \<or> (97 \<le> n \<and> n \<le> 122))"

definition cleanBase64 :: "string \<Rightarrow> string" where
  "cleanBase64 imageBytes =
     (if startsWith imageBytes ''data:image/'' then
        (let rest = drop 11 imageBytes;
             after = dropWhile isWordChar rest
         in if takeWhile isWordChar rest \<noteq> [] \<and> startsWith after '';base64,'' then drop 8 after
            else imageBytes)
      else imageBytes)"

text \<open>What the client does towards the provider, in order.\<close>

datatype GrokEvent = PostGenerate | Sleep nat | GetTask nat

definition maxAttempts :: nat where
  "maxAttempts = 60"

text \<open>
  One status response: \<open>Some\<close> when it ends the call (a result or a throw), \<open>None\<close> when the
  loop goes on to the next attempt.
\<close>

definition pollStep :: "StatusData FetchJson \<Rightarrow> (JsError + string) option" where
  "pollStep statusRes =
     (case statusRes of
        FetchRejects m \<Rightarrow> Some (Inl (Error m))
      | NotOk t \<Rightarrow> None
      | JsonRejects m \<Rightarrow> Some (Inl (Error m))
      | Body statusData \<Rightarrow>
          if task_status statusData = ''completed'' \<and> truthy (video_url statusData) then
            Some (Inr (or_default (video_url statusData) []))
          else if task_status statusData = ''failed'' then
            Some (Inl (Error (''Grok Task Failed: '' @ templateText (task_error statusData))))
          else None)"

function pollTask :: "(nat \<Rightarrow> StatusData FetchJson) \<Rightarrow> nat \<Rightarrow> (JsError + string) \<times> GrokEvent list" where
  "pollTask task i =
     (if i < maxAttempts then
        (case pollStep (task i) of
           Some r \<Rightarrow> (r, [Sleep 5000, GetTask i])
         | None \<Rightarrow>
             (case pollTask task (Suc i) of (r, events) \<Rightarrow> (r, Sleep 5000 # GetTask i # events)))
      else (Inl (Error ''Video generation timed out''), []))"
  by pat_completeness auto
termination
  by (relation "measure (\<lambda>(task, i). maxAttempts - i)") auto

declare pollTask.simps [simp del]

text \<open>The events of the attempts \<open>i\<close> up to \<open>n\<close>: a pause of 5000 ms before each request.\<close>

definition polls :: "nat \<Rightarrow> nat \<Rightarrow> GrokEvent list" where
  "polls i n = concat (map (\<lambda>j. [Sleep 5000, GetTask j]) [i..<n])"

definition generateGrokVideo ::
  "Env \<Rightarrow> string \<Rightarrow> string \<Rightarrow> string option \<Rightarrow> (JsError + string) \<times> GrokEvent list" where
  "generateGrokVideo env imageBytes prompt apiKey =
     (case apiKey of
        None \<Rightarrow> (Inl (Error ''Grok API Key is missing. Please set it in Settings.''), [])
      | Some k \<Rightarrow>
          if k = [] then (Inl (Error ''Grok API Key is missing. Please set it in Settings.''), [])
          else
            (case grokGenerate env k (cleanBase64 imageBytes)
                    (if prompt = [] then ''slow motion cinematic shot'' else prompt) of
               FetchRejects m \<Rightarrow> (Inl (Error m), [PostGenerate])
             | NotOk statusText \<Rightarrow>
                 (Inl (Error (''Grok Generation Failed: '' @ statusText)), [PostGenerate])
             | JsonRejects m \<Rightarrow> (Inl (Error m), [PostGenerate])
             | Body genData \<Rightarrow>
                 if \<not> success genData \<or> \<not> truthy (task_id genData) then
                   (Inl (Error (''Grok Error: '' @ or_default (gen_error genData) ''Unknown error'')),
                    [PostGenerate])
                 else
                   (case pollTask (grokTask env k (or_default (task_id genData) [])) 0 of
                      (r, events) \<Rightarrow> (r, PostGenerate # events))))"

subsection \<open>generateProductVideo\<close>

definition generateProductVideo ::
  "Env \<Rightarrow> string \<Rightarrow> string \<Rightarrow> string \<Rightarrow> (JsError + string) option" where
  "generateProductVideo env imageBytes imageMimeType prompt =
     (if (case videoProvider (settings env) of None \<Rightarrow> google | Some p \<Rightarrow> p) = grok then
        Some (fst (generateGrokVideo env imageBytes prompt (grokApiKey (settings env))))
      else veoVideo env imageBytes imageMimeType prompt)"

section \<open>Application state (the App component)\<close>

text \<open>
  The \<^verbatim>\<open>useState\<close> cells of the App component that the handlers below read or write.
  \<^verbatim>\<open>null\<close> is \<open>None\<close>.
\<close>

record AppState =
  language :: Language
  step :: ProcessingStep
  inputData :: "ProductInput option"
  analysis :: "AnalysisResult option"
  error :: "string option"
  showSettings :: bool

text \<open>
  \<^verbatim>\<open>setAnalysis(prev => { if (!prev) return null; return f(prev) })\<close>: a functional update
  of the plan that keeps \<^verbatim>\<open>null\<close>.
\<close>

definition setAnalysisWith :: "(AnalysisResult \<Rightarrow> AnalysisResult) \<Rightarrow> AppState \<Rightarrow> AppState" where
  "setAnalysisWith f st = st\<lparr>analysis := map_option f (analysis st)\<rparr>"

text \<open>
  What a handler did: the state when it first suspends at an \<^verbatim>\<open>await\<close> (or the state it
  returned in, when it never suspends), the state once it has settled, and the outward
  calls it issued, in order.
\<close>

datatype Call =
    AlertCall string
  | ClearDraftCall
  | AnalyzeCall "ReferenceImage list" string string Language
  | ImageCall string string string
  | VideoCall string string string

record HandlerRun =
  inflight :: AppState
  settled :: AppState
  calls :: "Call list"

definition noRun :: "AppState \<Rightarrow> HandlerRun" where
  "noRun st = \<lparr>inflight = st, settled = st, calls = []\<rparr>"

subsection \<open>handleStart\<close>

text \<open>The two maps that initialise the status of the sections and of the hero images.\<close>

definition sectionsWithStatus :: "AnalysisResult \<Rightarrow> GeneratedSection list" where
  "sectionsWithStatus result =
     map (\<lambda>s. s\<lparr>sec_status :=
                   (if sec_type s = specs_size \<or> sec_type s = trust_endorsement then Completed
                    else Pending),
                 sec_isEditing := Some False\<rparr>) (sections result)"

definition heroImagesWithStatus :: "AnalysisResult \<Rightarrow> HeroImage list" where
  "heroImagesWithStatus result =
     map (\<lambda>h. h\<lparr>hero_status := Pending, hero_isEditing := Some False,
                 videoStatus := Some Pending\<rparr>) (heroImages result)"

text \<open>The features argument of the analysis call.\<close>

definition featuresWithAudience :: "ProductInput \<Rightarrow> string" where
  "featuresWithAudience data =
     features data @
       (if targetAudience data \<noteq> [] then '' Target Audience: '' @ targetAudience data else [])"

definition handleStart :: "Env \<Rightarrow> AppState \<Rightarrow> ProductInput \<Rightarrow> HandlerRun" where
  "handleStart env st data =
     (let st1 = st\<lparr>inputData := Some data, step := Analyzing, error := None\<rparr>
      in if clearAppStateRejects env then
           \<lparr>inflight = st1, settled = st1, calls = [ClearDraftCall]\<rparr>
         else
           (let feats = featuresWithAudience data
            in \<lparr>inflight = st1,
                settled =
                  (case analyzeProductData env (referenceImages data) (name data) feats (language st) of
                     Inr result \<Rightarrow>
                       st1\<lparr>analysis := Some (result\<lparr>sections := sectionsWithStatus result,
                                                     heroImages := heroImagesWithStatus result\<rparr>),
                           step := Planning\<rparr>
                   | Inl err \<Rightarrow>
                       st1\<lparr>error := Some (if message err \<noteq> [] then message err
                                           else ''An error occurred during processing.''),
                           step := Input\<rparr>),
                calls = [ClearDraftCall,
                         AnalyzeCall (referenceImages data) (name data) feats (language st)]\<rparr>))"

subsection \<open>generateImageForItem\<close>

text \<open>
  The choice of the reference image (the first statements of the \<^verbatim>\<open>try\<close> block):
  \<^verbatim>\<open>find\<close> by identifier, then \<^verbatim>\<open>find\<close> by the label \<^verbatim>\<open>'main'\<close>, then the element at index 0;
  the \<^verbatim>\<open>throw\<close> when all three are \<^verbatim>\<open>undefined\<close>.
\<close>

definition findReferenceImage :: "ReferenceImage list \<Rightarrow> string option \<Rightarrow> JsError + ReferenceImage" where
  "findReferenceImage images referenceImageId =
     (case find (\<lambda>img. Some (img_id img) = referenceImageId) images of
        Some refImg \<Rightarrow> Inr refImg
      | None \<Rightarrow>
          (case find (\<lambda>img. label img = label_main) images of
             Some refImg \<Rightarrow> Inr refImg
           | None \<Rightarrow>
               (case images of
                  refImg # rest \<Rightarrow> Inr refImg
                | [] \<Rightarrow> Inl (Error ''No reference image available''))))"

text \<open>The \<^verbatim>\<open>try\<close> block up to the result of the awaited call, with the call it issues.\<close>

definition requestImage ::
  "Env \<Rightarrow> ProductInput \<Rightarrow> string option \<Rightarrow> string \<Rightarrow> (JsError + string) \<times> Call list" where
  "requestImage env input referenceImageId prompt =
     (case findReferenceImage (referenceImages input) referenceImageId of
        Inl e \<Rightarrow> (Inl e, [])
      | Inr refImg \<Rightarrow>
          (generateProductImage env (base64 refImg) (mimeType refImg) prompt,
           [ImageCall (base64 refImg) (mimeType refImg) prompt]))"

text \<open>The \<^verbatim>\<open>catch\<close> block, after \<^verbatim>\<open>stateUpdater('failed')\<close>.\<close>

definition isPermissionError :: "JsError \<Rightarrow> bool" where
  "isPermissionError e =
     (str_includes (message e) ''403'' \<or> str_includes (message e) ''Permission Denied'')"

definition reportImageError :: "Env \<Rightarrow> Language \<Rightarrow> JsError \<Rightarrow> AppState \<Rightarrow> AppState" where
  "reportImageError env lang e st =
     (if isPermissionError e then
        st\<lparr>error := Some (apiKeyError env lang), showSettings := True\<rparr>
      else
        st\<lparr>error := Some (if message e \<noteq> [] then message e
                           else ''Image generation failed. Please try again.'')\<rparr>)"

text \<open>
  When no reference image is found the \<^verbatim>\<open>throw\<close> comes before any \<^verbatim>\<open>await\<close>: the handler runs
  to its end without suspending, and the state it is seen in is the settled one.
\<close>

definition generateImageForItem ::
  "Env \<Rightarrow> AppState \<Rightarrow> string \<Rightarrow> string option \<Rightarrow> string \<Rightarrow>
   (Status \<Rightarrow> string option \<Rightarrow> AppState \<Rightarrow> AppState) \<Rightarrow> HandlerRun" where
  "generateImageForItem env st itemId referenceImageId prompt stateUpdater =
     (case inputData st of
        None \<Rightarrow> noRun st
      | Some input \<Rightarrow>
          (let st1 = stateUpdater Generating None st
           in case requestImage env input referenceImageId prompt of
                (Inr imageUrl, cs) \<Rightarrow>
                  \<lparr>inflight = st1, settled = stateUpdater Completed (Some imageUrl) st1, calls = cs\<rparr>
              | (Inl e, cs) \<Rightarrow>
                  (let stF = reportImageError env (language st) e (stateUpdater Failed None st1)
                   in \<lparr>inflight =
                         (case findReferenceImage (referenceImages input) referenceImageId of
                            Inl e' \<Rightarrow> stF
                          | Inr refImg \<Rightarrow> st1),
                       settled = stF, calls = cs\<rparr>)))"

subsection \<open>handleGenerateHeroVideo\<close>

definition setVideoStatus :: "string \<Rightarrow> Status \<Rightarrow> AppState \<Rightarrow> AppState" where
  "setVideoStatus heroId status =
     setAnalysisWith (\<lambda>prev. prev\<lparr>heroImages :=
        map (\<lambda>h. if hero_id h = heroId then h\<lparr>videoStatus := Some status\<rparr> else h)
            (heroImages prev)\<rparr>)"

definition setVideoCompleted :: "string \<Rightarrow> string \<Rightarrow> AppState \<Rightarrow> AppState" where
  "setVideoCompleted heroId videoUrl =
     setAnalysisWith (\<lambda>prev. prev\<lparr>heroImages :=
        map (\<lambda>h. if hero_id h = heroId
                  then h\<lparr>videoStatus := Some Completed, generatedVideoUrl := Some videoUrl\<rparr>
                  else h)
            (heroImages prev)\<rparr>)"

definition handleGenerateHeroVideo :: "Env \<Rightarrow> AppState \<Rightarrow> string \<Rightarrow> HandlerRun" where
  "handleGenerateHeroVideo env st heroId =
     (case analysis st of
        None \<Rightarrow> noRun st
      | Some a \<Rightarrow>
          (case find (\<lambda>h. hero_id h = heroId) (heroImages a) of
             None \<Rightarrow> noRun st
           | Some hero \<Rightarrow>
               if \<not> truthy (hero_generatedImageUrl hero) then
                 \<lparr>inflight = st, settled = st,
                  calls = [AlertCall ''Please generate an image first before generating a video.'']\<rparr>
               else
                 (let st1 = setVideoStatus heroId Generating st;
                      imageUrl = or_default (hero_generatedImageUrl hero) [];
                      prompt = or_default (videoPrompt hero) ''Slow cinematic pan''
                  in \<lparr>inflight = st1,
                      settled =
                        (case generateProductVideo env imageUrl ''image/png'' prompt of
                           None \<Rightarrow> st1
                         | Some (Inr videoUrl) \<Rightarrow> setVideoCompleted heroId videoUrl st1
                         | Some (Inl e) \<Rightarrow>
                             setVideoStatus heroId Failed
                               (st1\<lparr>error := Some (''Video Generation Failed: '' @ message e),
                                    showSettings := (if isPermissionError e then True
                                                     else showSettings st1)\<rparr>)),
                      calls = [VideoCall imageUrl ''image/png'' prompt]\<rparr>)))"

subsection \<open>handleGenerateSection, handleGenerateHeroImage\<close>

definition sectionUpdater :: "string \<Rightarrow> Status \<Rightarrow> string option \<Rightarrow> AppState \<Rightarrow> AppState" where
  "sectionUpdater sectionId status url =
     setAnalysisWith (\<lambda>prev. prev\<lparr>sections :=
        map (\<lambda>s. if sec_id s = sectionId
                  then s\<lparr>sec_status := status, sec_generatedImageUrl := url\<rparr> else s)
            (sections prev)\<rparr>)"

definition handleGenerateSection :: "Env \<Rightarrow> AppState \<Rightarrow> string \<Rightarrow> HandlerRun" where
  "handleGenerateSection env st sectionId =
     (case analysis st of
        None \<Rightarrow> noRun st
      | Some a \<Rightarrow>
          (case find (\<lambda>s. sec_id s = sectionId) (sections a) of
             None \<Rightarrow> noRun st
           | Some section \<Rightarrow>
               generateImageForItem env st sectionId (sec_referenceImageId section)
                 (sec_imagePrompt section) (sectionUpdater sectionId)))"

definition heroUpdater :: "string \<Rightarrow> Status \<Rightarrow> string option \<Rightarrow> AppState \<Rightarrow> AppState" where
  "heroUpdater heroId status url =
     setAnalysisWith (\<lambda>prev. prev\<lparr>heroImages :=
        map (\<lambda>h. if hero_id h = heroId
                  then h\<lparr>hero_status := status, hero_generatedImageUrl := url\<rparr> else h)
            (heroImages prev)\<rparr>)"

definition handleGenerateHeroImage :: "Env \<Rightarrow> AppState \<Rightarrow> string \<Rightarrow> HandlerRun" where
  "handleGenerateHeroImage env st heroId =
     (case analysis st of
        None \<Rightarrow> noRun st
      | Some a \<Rightarrow>
          (case find (\<lambda>h. hero_id h = heroId) (heroImages a) of
             None \<Rightarrow> noRun st
           | Some hero \<Rightarrow>
               generateImageForItem env st heroId (hero_referenceImageId hero)
                 (hero_imagePrompt hero) (heroUpdater heroId)))"

subsection \<open>The handlers after their await\<close>

text \<open>
  A handler that awaits a remote call may resume after other handlers have run. What it
  does then is the part of its body after the \<^verbatim>\<open>await\<close>, on the state of that moment: the
  functional updates take the plan as it is then, while the language is the one of the
  moment the handler started.
\<close>

definition imageSettles ::
  "Env \<Rightarrow> Language \<Rightarrow> (Status \<Rightarrow> string option \<Rightarrow> AppState \<Rightarrow> AppState) \<Rightarrow>
   JsError + string \<Rightarrow> AppState \<Rightarrow> AppState" where
  "imageSettles env lang stateUpdater outcome st =
     (case outcome of
        Inr imageUrl \<Rightarrow> stateUpdater Completed (Some imageUrl) st
      | Inl e \<Rightarrow> reportImageError env lang e (stateUpdater Failed None st))"

definition videoSettles :: "string \<Rightarrow> JsError + string \<Rightarrow> AppState \<Rightarrow> AppState" where
  "videoSettles heroId outcome st =
     (case outcome of
        Inr videoUrl \<Rightarrow> setVideoCompleted heroId videoUrl st
      | Inl e \<Rightarrow>
          setVideoStatus heroId Failed
            (st\<lparr>error := Some (''Video Generation Failed: '' @ message e),
                showSettings := (if isPermissionError e then True else showSettings st)\<rparr>))"

subsection \<open>handleDeleteSection\<close>

definition handleDeleteSection :: "AppState \<Rightarrow> string \<Rightarrow> AppState" where
  "handleDeleteSection st sid =
     setAnalysisWith (\<lambda>prev. prev\<lparr>sections := filter (\<lambda>s. sec_id s \<noteq> sid) (sections prev)\<rparr>) st"

subsection \<open>handleUpdateSection, handleUpdateHeroImage\<close>







section \<open>The controls (SectionControl, CarouselControl)\<close>






section \<open>Sessions of the application\<close>





















section \<open>An example project\<close>

text \<open>
  Two uploaded images, a plan of one hero image and two sections, and environments in
  which the remote calls succeed or fail in a chosen way. The closed instances below are
  evaluated on them.
\<close>

definition imgA :: ReferenceImage where
  "imgA = \<lparr>img_id = ''img_a'', base64 = ''QUFB'', mimeType = ''image/png'', label = label_detail\<rparr>"

definition imgB :: ReferenceImage where
  "imgB = \<lparr>img_id = ''img_b'', base64 = ''QkJC'', mimeType = ''image/webp'', label = label_main\<rparr>"

definition demoInput :: ProductInput where
  "demoInput = \<lparr>referenceImages = [imgA, imgB], name = ''Thermal Mug'',
                 features = ''keeps drinks hot 6h'', targetAudience = []\<rparr>"

definition heroFront :: HeroImage where
  "heroFront = \<lparr>hero_id = ''h1'', hero_type = front_80, hero_title = ''Front View'',
                 hero_imagePrompt = ''mug, front view'', hero_referenceImageId = Some ''img_b'',
                 hero_generatedImageUrl = None, hero_status = Pending, hero_isEditing = None,
                 generatedVideoUrl = None, videoStatus = None, videoPrompt = None,
                 isVideoEditing = None\<rparr>"

definition secHeader :: GeneratedSection where
  "secHeader = \<lparr>sec_id = ''s1'', sec_type = header_impact, sec_title = ''Header'',
                 sec_content = ''Hot for six hours'', sec_overlayText = Some ''Stay hot'',
                 sec_imagePrompt = ''mug on a desk'', sec_referenceImageId = Some ''img_a'',
                 sec_generatedImageUrl = None, sec_status = Pending, sec_isEditing = None\<rparr>"

definition secSpecs :: GeneratedSection where
  "secSpecs = \<lparr>sec_id = ''s2'', sec_type = specs_size, sec_title = ''Specs'',
                sec_content = ''350 ml'', sec_overlayText = Some ''Sizes'',
                sec_imagePrompt = ''size chart'', sec_referenceImageId = Some ''img_b'',
                sec_generatedImageUrl = None, sec_status = Pending, sec_isEditing = None\<rparr>"

definition demoPlan :: AnalysisResult where
  "demoPlan = \<lparr>refinedTitle = ''Thermal Mug 350'', refinedSellingPoints = [''hot 6h''],
                priceEstimate = ''19'', marketingTone = ''warm'',
                heroImages = [heroFront], sections = [secHeader, secSpecs]\<rparr>"

text \<open>A plan whose hero image names an image that was never uploaded.\<close>

definition ghostPlan :: AnalysisResult where
  "ghostPlan = demoPlan\<lparr>heroImages := [heroFront\<lparr>hero_referenceImageId := Some ''ghost''\<rparr>]\<rparr>"

definition demoEnv :: Env where
  "demoEnv =
     \<lparr>settings = \<lparr>proxyUrl = None, googleApiKey = Some ''key'', videoProvider = Some grok,
                  grokApiKey = Some ''gk''\<rparr>,
      envApiKey = None,
      loadImage = (\<lambda>b m. Loaded 2048 1024),
      canvasJpeg = (\<lambda>b m w h. ''SlBFRw==''),
      analysisContent = (\<lambda>imgs n f l. Inr (Some ''{plan}'')),
      jsonParse = (\<lambda>t. Inr demoPlan),
      imageContent = (\<lambda>p d m. Inr [None, Some ''UE5H'']),
      veoVideo = (\<lambda>b m p. None),
      grokGenerate = (\<lambda>k b p. Body \<lparr>success = True, task_id = Some ''t1'', gen_error = None\<rparr>),
      grokTask = (\<lambda>k t i. NotOk ''Bad Gateway''),
      clearAppStateRejects = False,
      apiKeyError = (\<lambda>l. ''Check the API key in the settings'')\<rparr>"

definition ghostEnv :: Env where
  "ghostEnv = demoEnv\<lparr>jsonParse := (\<lambda>t. Inr ghostPlan)\<rparr>"

definition forbiddenEnv :: Env where
  "forbiddenEnv = demoEnv\<lparr>imageContent := (\<lambda>p d m. Inl (Error ''got status: 403 Forbidden''))\<rparr>"

definition offlineEnv :: Env where
  "offlineEnv = demoEnv\<lparr>imageContent := (\<lambda>p d m. Inl (Error ''Failed to fetch''))\<rparr>"

definition undecodableEnv :: Env where
  "undecodableEnv = demoEnv\<lparr>loadImage := (\<lambda>b m. LoadError)\<rparr>"

definition droppedEnv :: Env where
  "droppedEnv = demoEnv\<lparr>grokTask := (\<lambda>k t i. FetchRejects ''Failed to fetch'')\<rparr>"

definition freshState :: AppState where
  "freshState = \<lparr>language = en, step = Input, inputData = None, analysis = None, error = None,
                  showSettings = False\<rparr>"

text \<open>The state after the example plan was installed.\<close>

definition plannedState :: AppState where
  "plannedState = settled (handleStart demoEnv freshState demoInput)"

text \<open>
  A later state of the project: the hero image and the first section have a generated
  image, and the hero image has a video from an earlier run.
\<close>

definition heroDone :: HeroImage where
  "heroDone = heroFront\<lparr>hero_generatedImageUrl := Some ''data:image/png;base64,T0xE'',
                         hero_status := Completed, hero_isEditing := Some False,
                         generatedVideoUrl := Some ''https://cdn.example/old.mp4'',
                         videoStatus := Some Completed\<rparr>"

definition secDone :: GeneratedSection where
  "secDone = secHeader\<lparr>sec_generatedImageUrl := Some ''data:image/png;base64,T0xE'',
                        sec_status := Completed, sec_isEditing := Some False\<rparr>"

definition donePlan :: AnalysisResult where
  "donePlan = demoPlan\<lparr>heroImages := [heroDone],
                         sections := [secDone, secSpecs\<lparr>sec_status := Completed\<rparr>]\<rparr>"

definition doneState :: AppState where
  "doneState = \<lparr>language = en, step = Planning, inputData = Some demoInput,
                 analysis = Some donePlan, error = None, showSettings = False\<rparr>"

text \<open>The same state with no reference image left in the input.\<close>

definition bareState :: AppState where
  "bareState = doneState\<lparr>inputData := Some (demoInput\<lparr>referenceImages := []\<rparr>)\<rparr>"

text \<open>
  Environments whose image endpoint refuses the key without the text 403, and one whose
  quota message happens to contain these digits.
\<close>

definition invalidKeyEnv :: Env where
  "invalidKeyEnv = demoEnv\<lparr>imageContent :=
     (\<lambda>p d m. Inl (Error ''got status: 400 Bad Request. API key not valid. Please pass a valid API key.''))\<rparr>"

definition quotaEnv :: Env where
  "quotaEnv = demoEnv\<lparr>imageContent :=
     (\<lambda>p d m. Inl (Error ''got status: 429 Too Many Requests. Quota exceeded for consumer project_number:184032.''))\<rparr>"

text \<open>
  An environment whose browser cannot load the images and whose image endpoint answers
  with the MIME type and the data it was sent.
\<close>

definition echoEnv :: Env where
  "echoEnv = demoEnv\<lparr>loadImage := (\<lambda>b m. LoadError),
                     imageContent := (\<lambda>p d m. Inr [Some (m @ '':'' @ d)])\<rparr>"

text \<open>
  An environment whose video provider answers the third status request with a body that
  does not parse, and one whose provider reports the task failed on the second.
\<close>

definition garbledEnv :: Env where
  "garbledEnv = demoEnv\<lparr>grokTask :=
     (\<lambda>k t i. if i = 2 then JsonRejects ''Unexpected token < in JSON at position 0''
               else NotOk ''Bad Gateway'')\<rparr>"


section \<open>Properties\<close>

subsection \<open>Lists\<close>

lemma find_first_split:
  "P x \<Longrightarrow> \<forall>p\<in>set pre. \<not> P p \<Longrightarrow> find P (pre @ x # post) = Some x"
  by (induction pre) auto

lemma find_none_iff_all: "find P xs = None \<longleftrightarrow> (\<forall>x\<in>set xs. \<not> P x)"
  by (induction xs) auto

lemma filter_drop_unique:
  "P x = False \<Longrightarrow> \<forall>y\<in>set pre \<union> set post. P y \<Longrightarrow> filter P (pre @ x # post) = pre @ post"
  by (induction pre) auto

subsection \<open>The example project, evaluated\<close>

lemma trim_key: "trim ''key'' = ''key''"
  by (simp add: trim_def whiteSpace_def)

lemma getAiClient_demoEnv: "getAiClient demoEnv = Inr (''key'', None)"
  by (simp add: getAiClient_def getApiKey_def js_or_def trim_key demoEnv_def)

lemma analyze_demoEnv:
  "analyzeProductData demoEnv imgs n f l = Inr demoPlan"
  by (simp add: analyzeProductData_def getAiClient_demoEnv or_default_def)
     (simp add: demoEnv_def)

lemma plannedState_eq:
  "plannedState =
     \<lparr>language = en, step = Planning, inputData = Some demoInput,
      analysis = Some (demoPlan\<lparr>sections := sectionsWithStatus demoPlan,
                                 heroImages := heroImagesWithStatus demoPlan\<rparr>),
      error = None, showSettings = False\<rparr>"
  by (simp add: plannedState_def handleStart_def analyze_demoEnv Let_def)
     (simp add: demoEnv_def freshState_def)

lemma plannedState_sections:
  "map_option sections (analysis plannedState) =
     Some [secHeader\<lparr>sec_isEditing := Some False\<rparr>,
           secSpecs\<lparr>sec_status := Completed, sec_isEditing := Some False\<rparr>]"
  by (simp add: plannedState_eq sectionsWithStatus_def demoPlan_def secHeader_def secSpecs_def)

subsection \<open>Deleting a section\<close>

text \<open>
  C8. \<open>handleDeleteSection\<close> changes nothing but the list of sections of the plan: the hero
  images and the other fields of the plan and of the state are as before. The sections
  kept are exactly those whose identifier differs from the one given, each unchanged and
  in their order; when one section has that identifier, it is the one removed; when none
  has it (or there is no plan), the state is unchanged.
\<close>

theorem handleDeleteSection_frame:
  "handleDeleteSection st sid = st\<lparr>analysis := analysis (handleDeleteSection st sid)\<rparr>
   \<and> (analysis st = None \<longrightarrow> handleDeleteSection st sid = st)
   \<and> (\<forall>a. analysis st = Some a \<longrightarrow>
        (\<exists>a'. analysis (handleDeleteSection st sid) = Some a'
           \<and> a' = a\<lparr>sections := sections a'\<rparr>
           \<and> heroImages a' = heroImages a
           \<and> (\<forall>s. s \<in> set (sections a') \<longleftrightarrow> s \<in> set (sections a) \<and> sec_id s \<noteq> sid)
           \<and> subseq (sections a') (sections a)
           \<and> (sid \<notin> sec_id ` set (sections a) \<longrightarrow> handleDeleteSection st sid = st)
           \<and> (\<forall>pre s post. sections a = pre @ s # post \<and> sec_id s = sid
                  \<and> (\<forall>x\<in>set pre \<union> set post. sec_id x \<noteq> sid)
                \<longrightarrow> sections a' = pre @ post)))"
proof -
  have only: "handleDeleteSection st sid = st\<lparr>analysis := analysis (handleDeleteSection st sid)\<rparr>"
    by (simp add: handleDeleteSection_def setAnalysisWith_def)
  have none: "analysis st = None \<longrightarrow> handleDeleteSection st sid = st"
    by (simp add: handleDeleteSection_def setAnalysisWith_def)
  have some: "\<exists>a'. analysis (handleDeleteSection st sid) = Some a'
           \<and> a' = a\<lparr>sections := sections a'\<rparr>
           \<and> heroImages a' = heroImages a
           \<and> (\<forall>s. s \<in> set (sections a') \<longleftrightarrow> s \<in> set (sections a) \<and> sec_id s \<noteq> sid)
           \<and> subseq (sections a') (sections a)
           \<and> (sid \<notin> sec_id ` set (sections a) \<longrightarrow> handleDeleteSection st sid = st)
           \<and> (\<forall>pre s post. sections a = pre @ s # post \<and> sec_id s = sid
                  \<and> (\<forall>x\<in>set pre \<union> set post. sec_id x \<noteq> sid)
                \<longrightarrow> sections a' = pre @ post)" if a: "analysis st = Some a" for a
  proof -
    let ?a' = "a\<lparr>sections := filter (\<lambda>s. sec_id s \<noteq> sid) (sections a)\<rparr>"
    have 1: "analysis (handleDeleteSection st sid) = Some ?a'"
      using a by (simp add: handleDeleteSection_def setAnalysisWith_def)
    have 2: "?a' = a\<lparr>sections := sections ?a'\<rparr>" by simp
    have 3: "heroImages ?a' = heroImages a" by simp
    have 4: "\<forall>s. s \<in> set (sections ?a') \<longleftrightarrow> s \<in> set (sections a) \<and> sec_id s \<noteq> sid" by simp
    have 5: "subseq (sections ?a') (sections a)" by simp
    have 6: "sid \<notin> sec_id ` set (sections a) \<longrightarrow> handleDeleteSection st sid = st"
    proof
      assume "sid \<notin> sec_id ` set (sections a)"
      then have "filter (\<lambda>s. sec_id s \<noteq> sid) (sections a) = sections a"
        by (auto simp: filter_id_conv)
      then show "handleDeleteSection st sid = st"
        using a by (simp add: handleDeleteSection_def setAnalysisWith_def)
    qed
    have 7: "\<forall>pre s post. sections a = pre @ s # post \<and> sec_id s = sid
                  \<and> (\<forall>x\<in>set pre \<union> set post. sec_id x \<noteq> sid)
                \<longrightarrow> sections ?a' = pre @ post"
      by (auto simp: filter_drop_unique)
    from 1 2 3 4 5 6 7 show ?thesis by blast
  qed
  from only none some show ?thesis by blast
qed

theorem handleDeleteSection_frame_witness:
  "map_option (map sec_id \<circ> sections) (analysis (handleDeleteSection plannedState ''s1'')) = Some [''s2'']
   \<and> map_option heroImages (analysis (handleDeleteSection plannedState ''s1'')) =
       map_option heroImages (analysis plannedState)
   \<and> handleDeleteSection plannedState ''s9'' = plannedState
   \<and> handleDeleteSection freshState ''s1'' = freshState"
proof -
  let ?h = "secHeader\<lparr>sec_isEditing := Some False\<rparr>"
  let ?s = "secSpecs\<lparr>sec_status := Completed, sec_isEditing := Some False\<rparr>"
  obtain a where a: "analysis plannedState = Some a" and sa: "sections a = [?h, ?s]"
    using plannedState_sections by (auto simp: map_option_case split: option.splits)
  have ids: "sec_id ?h = ''s1''" "sec_id ?s = ''s2''"
    by (simp_all add: secHeader_def secSpecs_def)
  from handleDeleteSection_frame [of plannedState "''s1''"] a
  obtain a' where a': "analysis (handleDeleteSection plannedState ''s1'') = Some a'"
    and h: "heroImages a' = heroImages a"
    and r: "\<forall>pre s post. sections a = pre @ s # post \<and> sec_id s = ''s1''
              \<and> (\<forall>x\<in>set pre \<union> set post. sec_id x \<noteq> ''s1'') \<longrightarrow> sections a' = pre @ post"
    by blast
  have "sections a' = [] @ [?s]"
    using r [rule_format, of "[]" ?h "[?s]"] sa ids by simp
  then have 1: "map_option (map sec_id \<circ> sections) (analysis (handleDeleteSection plannedState ''s1'')) = Some [''s2'']"
    using a' ids by simp
  have 2: "map_option heroImages (analysis (handleDeleteSection plannedState ''s1'')) =
       map_option heroImages (analysis plannedState)"
    using a a' h by simp
  have "''s9'' \<notin> sec_id ` set (sections a)" using sa ids by simp
  with handleDeleteSection_frame [of plannedState "''s9''"] a
  have 3: "handleDeleteSection plannedState ''s9'' = plannedState" by blast
  have "analysis freshState = None" by (simp add: freshState_def)
  with handleDeleteSection_frame [of freshState "''s1''"]
  have 4: "handleDeleteSection freshState ''s1'' = freshState" by blast
  from 1 2 3 4 show ?thesis by blast
qed

subsection \<open>Installing the plan\<close>

lemma handleStart_installs:
  assumes "\<not> clearAppStateRejects env"
    and "analyzeProductData env (referenceImages data) (name data) (featuresWithAudience data)
           (language st) = Inr result"
  shows "settled (handleStart env st data) =
           st\<lparr>inputData := Some data, step := Planning, error := None,
              analysis := Some (result\<lparr>sections := sectionsWithStatus result,
                                        heroImages := heroImagesWithStatus result\<rparr>)\<rparr>"
  using assms by (simp add: handleStart_def Let_def)

text \<open>
  C4. When \<open>handleStart\<close> installs the plan that the analysis returned, the plan has the
  sections and hero images of the result, in their order; every section of type
  \<^verbatim>\<open>specs_size\<close> or \<^verbatim>\<open>trust_endorsement\<close> has the status completed and every other section
  the status pending; every hero image has the image status pending and the video status
  pending.
\<close>

theorem handleStart_initial_status:
  assumes "\<not> clearAppStateRejects env"
    and "analyzeProductData env (referenceImages data) (name data) (featuresWithAudience data)
           (language st) = Inr result"
  shows "\<exists>plan. analysis (settled (handleStart env st data)) = Some plan
           \<and> map sec_id (sections plan) = map sec_id (sections result)
           \<and> map sec_type (sections plan) = map sec_type (sections result)
           \<and> map hero_id (heroImages plan) = map hero_id (heroImages result)
           \<and> (\<forall>s\<in>set (sections plan).
                 sec_status s = (if sec_type s = specs_size \<or> sec_type s = trust_endorsement
                                 then Completed else Pending))
           \<and> (\<forall>h\<in>set (heroImages plan).
                 hero_status h = Pending \<and> videoStatus h = Some Pending)"
proof -
  let ?plan = "result\<lparr>sections := sectionsWithStatus result,
                       heroImages := heroImagesWithStatus result\<rparr>"
  have 1: "analysis (settled (handleStart env st data)) = Some ?plan"
    using handleStart_installs [OF assms] by simp
  have 2: "map sec_id (sections ?plan) = map sec_id (sections result)"
    by (simp add: sectionsWithStatus_def comp_def)
  have 3: "map sec_type (sections ?plan) = map sec_type (sections result)"
    by (simp add: sectionsWithStatus_def comp_def)
  have 4: "map hero_id (heroImages ?plan) = map hero_id (heroImages result)"
    by (simp add: heroImagesWithStatus_def comp_def)
  have 5: "\<forall>s\<in>set (sections ?plan).
             sec_status s = (if sec_type s = specs_size \<or> sec_type s = trust_endorsement
                             then Completed else Pending)"
    by (auto simp: sectionsWithStatus_def)
  have 6: "\<forall>h\<in>set (heroImages ?plan). hero_status h = Pending \<and> videoStatus h = Some Pending"
    by (auto simp: heroImagesWithStatus_def)
  from 1 2 3 4 5 6 show ?thesis by blast
qed

theorem handleStart_initial_status_witness:
  "map_option (map sec_type \<circ> sections) (analysis plannedState) = Some [header_impact, specs_size]
   \<and> map_option (map sec_status \<circ> sections) (analysis plannedState) = Some [Pending, Completed]
   \<and> map_option (map hero_status \<circ> heroImages) (analysis plannedState) = Some [Pending]
   \<and> map_option (map videoStatus \<circ> heroImages) (analysis plannedState) = Some [Some Pending]"
proof -
  have c: "\<not> clearAppStateRejects demoEnv" by (simp add: demoEnv_def)
  have a: "analyzeProductData demoEnv (referenceImages demoInput) (name demoInput)
             (featuresWithAudience demoInput) (language freshState) = Inr demoPlan"
    by (rule analyze_demoEnv)
  from handleStart_initial_status [OF c a]
  obtain plan where p: "analysis plannedState = Some plan"
    and ty: "map sec_type (sections plan) = map sec_type (sections demoPlan)"
    and hi: "map hero_id (heroImages plan) = map hero_id (heroImages demoPlan)"
    and ss: "\<forall>s\<in>set (sections plan).
               sec_status s = (if sec_type s = specs_size \<or> sec_type s = trust_endorsement
                               then Completed else Pending)"
    and hs: "\<forall>h\<in>set (heroImages plan). hero_status h = Pending \<and> videoStatus h = Some Pending"
    unfolding plannedState_def by blast
  have ty': "map sec_type (sections plan) = [header_impact, specs_size]"
    using ty by (simp add: demoPlan_def secHeader_def secSpecs_def)
  then obtain s1 s2 where s: "sections plan = [s1, s2]"
    and t: "sec_type s1 = header_impact" "sec_type s2 = specs_size"
    by auto
  have st: "map sec_status (sections plan) = [Pending, Completed]"
    using ss s t by simp
  have "map hero_id (heroImages plan) = [''h1'']"
    using hi by (simp add: demoPlan_def heroFront_def)
  then obtain h1 where h: "heroImages plan = [h1]" by auto
  have hst: "map hero_status (heroImages plan) = [Pending]"
    "map videoStatus (heroImages plan) = [Some Pending]"
    using hs h by simp_all
  from p ty' st hst show ?thesis by simp
qed

lemma analyze_parsed:
  assumes "getAiClient env = Inr ai"
    and "analysisContent env (processedImages env images) nm feats lang = Inr (Some txt)"
    and "txt \<noteq> []"
  shows "analyzeProductData env images nm feats lang = jsonParse env txt"
  using assms by (simp add: analyzeProductData_def or_default_def)

text \<open>
  C1, as the code has it. \<open>analyzeProductData\<close> returns whatever plan \<^verbatim>\<open>JSON.parse\<close> reads from
  a non-empty response text, and \<open>handleStart\<close> stores that plan and moves to the planning
  step with no error set. Every \<^verbatim>\<open>referenceImageId\<close> of the stored plan is the one the
  response carried: none is compared with the identifiers of the supplied images, so no
  plan is rejected or flagged on that ground.
\<close>

theorem handleStart_stores_parsed_plan:
  assumes "\<not> clearAppStateRejects env"
    and "getAiClient env = Inr ai"
    and "analysisContent env (processedImages env (referenceImages data)) (name data)
           (featuresWithAudience data) (language st) = Inr (Some txt)"
    and "txt \<noteq> []"
    and "jsonParse env txt = Inr result"
  shows "analyzeProductData env (referenceImages data) (name data) (featuresWithAudience data)
           (language st) = Inr result
         \<and> (\<exists>plan. analysis (settled (handleStart env st data)) = Some plan
               \<and> step (settled (handleStart env st data)) = Planning
               \<and> error (settled (handleStart env st data)) = None
               \<and> map hero_referenceImageId (heroImages plan) =
                   map hero_referenceImageId (heroImages result)
               \<and> map sec_referenceImageId (sections plan) =
                   map sec_referenceImageId (sections result))"
proof -
  have a: "analyzeProductData env (referenceImages data) (name data) (featuresWithAudience data)
             (language st) = Inr result"
    using analyze_parsed [OF assms(2) assms(3) assms(4)] assms(5) by simp
  let ?plan = "result\<lparr>sections := sectionsWithStatus result,
                       heroImages := heroImagesWithStatus result\<rparr>"
  have s: "settled (handleStart env st data) =
             st\<lparr>inputData := Some data, step := Planning, error := None, analysis := Some ?plan\<rparr>"
    by (rule handleStart_installs [OF assms(1) a])
  have 1: "analysis (settled (handleStart env st data)) = Some ?plan"
    and 2: "step (settled (handleStart env st data)) = Planning"
    and 3: "error (settled (handleStart env st data)) = None"
    by (simp_all add: s)
  have 4: "map hero_referenceImageId (heroImages ?plan) =
             map hero_referenceImageId (heroImages result)"
    by (simp add: heroImagesWithStatus_def comp_def)
  have 5: "map sec_referenceImageId (sections ?plan) = map sec_referenceImageId (sections result)"
    by (simp add: sectionsWithStatus_def comp_def)
  from a 1 2 3 4 5 show ?thesis by blast
qed

lemma getAiClient_ghostEnv: "getAiClient ghostEnv = Inr (''key'', None)"
  by (simp add: getAiClient_def getApiKey_def js_or_def trim_key ghostEnv_def
        demoEnv_def)

lemma analyze_ghostEnv: "analyzeProductData ghostEnv imgs n f l = Inr ghostPlan"
  by (simp add: analyzeProductData_def getAiClient_ghostEnv or_default_def)
     (simp add: ghostEnv_def demoEnv_def)

theorem handleStart_stores_parsed_plan_witness:
  "analyzeProductData ghostEnv (referenceImages demoInput) (name demoInput)
     (featuresWithAudience demoInput) (language freshState) = Inr ghostPlan
   \<and> step (settled (handleStart ghostEnv freshState demoInput)) = Planning
   \<and> error (settled (handleStart ghostEnv freshState demoInput)) = None
   \<and> map_option (map hero_referenceImageId \<circ> heroImages)
        (analysis (settled (handleStart ghostEnv freshState demoInput))) = Some [Some ''ghost'']"
proof -
  have c: "\<not> clearAppStateRejects ghostEnv" by (simp add: ghostEnv_def demoEnv_def)
  have t: "analysisContent ghostEnv (processedImages ghostEnv (referenceImages demoInput))
             (name demoInput) (featuresWithAudience demoInput) (language freshState)
           = Inr (Some ''{plan}'')"
    by (simp add: ghostEnv_def demoEnv_def)
  have n: "''{plan}'' \<noteq> []" by simp
  have j: "jsonParse ghostEnv ''{plan}'' = Inr ghostPlan" by (simp add: ghostEnv_def demoEnv_def)
  have g: "map hero_referenceImageId (heroImages ghostPlan) = [Some ''ghost'']"
    by (simp add: ghostPlan_def)
  from handleStart_stores_parsed_plan [OF c getAiClient_ghostEnv t n j] g
  show ?thesis by auto
qed

text \<open>
  C1 fails as stated: the response names the image \<^verbatim>\<open>ghost\<close>, the supplied images are
  \<^verbatim>\<open>img_a\<close> and \<^verbatim>\<open>img_b\<close>, and the plan is returned, stored and shown for planning with no
  error.
\<close>

theorem analyze_dangling_reference_counterexample:
  "analyzeProductData ghostEnv (referenceImages demoInput) (name demoInput)
     (featuresWithAudience demoInput) (language freshState) = Inr ghostPlan
   \<and> map_option (map hero_referenceImageId \<circ> heroImages)
        (analysis (settled (handleStart ghostEnv freshState demoInput))) = Some [Some ''ghost'']
   \<and> ''ghost'' \<notin> set (map img_id (referenceImages demoInput))
   \<and> step (settled (handleStart ghostEnv freshState demoInput)) = Planning
   \<and> error (settled (handleStart ghostEnv freshState demoInput)) = None"
proof -
  have c: "\<not> clearAppStateRejects ghostEnv" by (simp add: ghostEnv_def demoEnv_def)
  have s: "settled (handleStart ghostEnv freshState demoInput) =
             freshState\<lparr>inputData := Some demoInput, step := Planning, error := None,
               analysis := Some (ghostPlan\<lparr>sections := sectionsWithStatus ghostPlan,
                                            heroImages := heroImagesWithStatus ghostPlan\<rparr>)\<rparr>"
    by (rule handleStart_installs [OF c analyze_ghostEnv])
  have g: "map hero_referenceImageId (heroImagesWithStatus ghostPlan) = [Some ''ghost'']"
    by (simp add: heroImagesWithStatus_def ghostPlan_def)
  have i: "''ghost'' \<notin> set (map img_id (referenceImages demoInput))"
    by (simp add: demoInput_def imgA_def imgB_def)
  show ?thesis using analyze_ghostEnv s g i by simp
qed

subsection \<open>Choosing the reference image\<close>

lemma findReferenceImage_by_id:
  assumes "images = pre @ img # post" "Some (img_id img) = rid"
    and "\<forall>p\<in>set pre. Some (img_id p) \<noteq> rid"
  shows "findReferenceImage images rid = Inr img"
  using assms by (simp add: findReferenceImage_def find_first_split)

lemma findReferenceImage_by_label:
  assumes "\<forall>i\<in>set images. Some (img_id i) \<noteq> rid"
    and "images = pre @ img # post" "label img = label_main"
    and "\<forall>p\<in>set pre. label p \<noteq> label_main"
  shows "findReferenceImage images rid = Inr img"
proof -
  have "find (\<lambda>i. Some (img_id i) = rid) images = None"
    using assms(1) by (simp add: find_none_iff_all)
  moreover have "find (\<lambda>i. label i = label_main) images = Some img"
    using assms(2,3,4) by (simp add: find_first_split)
  ultimately show ?thesis by (simp add: findReferenceImage_def)
qed

lemma findReferenceImage_first:
  assumes "\<forall>i\<in>set images. Some (img_id i) \<noteq> rid \<and> label i \<noteq> label_main"
    and "images = img # rest"
  shows "findReferenceImage images rid = Inr img"
proof -
  have "find (\<lambda>i. Some (img_id i) = rid) images = None"
    using assms(1) by (simp add: find_none_iff_all)
  moreover have "find (\<lambda>i. label i = label_main) images = None"
    using assms(1) by (simp add: find_none_iff_all)
  ultimately show ?thesis using assms(2) by (simp add: findReferenceImage_def)
qed

lemma findReferenceImage_fails_iff:
  "(\<exists>e. findReferenceImage images rid = Inl e) \<longleftrightarrow> images = []"
  by (cases images) (auto simp: findReferenceImage_def split: option.splits)

lemma generateImageForItem_calls:
  assumes "inputData st = Some input"
  shows "calls (generateImageForItem env st itemId rid prompt upd) =
           (case findReferenceImage (referenceImages input) rid of
              Inl e \<Rightarrow> []
            | Inr img \<Rightarrow> [ImageCall (base64 img) (mimeType img) prompt])"
  using assms
  by (simp add: generateImageForItem_def requestImage_def Let_def
           split: sum.splits prod.splits)

text \<open>
  C5. The reference image of an image request is chosen in this order: the first image
  whose identifier equals the \<^verbatim>\<open>referenceImageId\<close> of the item, when there is one;
  otherwise the first image labelled \<^verbatim>\<open>main\<close>, when there is one; otherwise the first
  image of the list. The choice fails exactly when the list is empty. The call that
  \<open>generateImageForItem\<close> issues carries the data and MIME type of the chosen image, and
  no call is issued when the choice fails. The data and MIME type of the chosen image are
  what \<open>generateProductImage\<close> is given, the handler settles with the outcome of that call,
  and the image endpoint receives the chosen image as \<open>compressImage\<close> returns it.
\<close>

lemma requestImage_chosen:
  assumes "findReferenceImage (referenceImages input) rid = Inr img"
  shows "requestImage env input rid prompt =
           (generateProductImage env (base64 img) (mimeType img) prompt,
            [ImageCall (base64 img) (mimeType img) prompt])"
  using assms by (simp add: requestImage_def)

lemma generateImageForItem_settled_chosen:
  assumes "inputData st = Some input"
    and "findReferenceImage (referenceImages input) rid = Inr img"
  shows "settled (generateImageForItem env st itemId rid prompt upd) =
           (case generateProductImage env (base64 img) (mimeType img) prompt of
              Inr url \<Rightarrow> upd Completed (Some url) (upd Generating None st)
            | Inl e \<Rightarrow>
                reportImageError env (language st) e (upd Failed None (upd Generating None st)))"
  using assms
  by (simp add: generateImageForItem_def requestImage_chosen Let_def split: sum.splits)

lemma generateProductImage_request:
  assumes "getAiClient env = Inr ai"
  shows "generateProductImage env b m prompt =
           (case (case imageContent env prompt (fst (compressImage env b m))
                         (snd (compressImage env b m)) of
                    Inl e \<Rightarrow> Inl e
                  | Inr parts \<Rightarrow> firstInlineData parts) of
              Inr url \<Rightarrow> Inr url
            | Inl e \<Rightarrow>
                if str_includes (message e) ''403'' then
                  Inl (Error ''Permission Denied (403). It seems your API Key supports the model but not 2K resolution or the payload was too large. (Optimization applied, please retry).'')
                else Inl e)"
proof -
  obtain d mt where c: "compressImage env b m = (d, mt)" by (cases "compressImage env b m")
  show ?thesis using assms c by (simp add: generateProductImage_def)
qed

theorem reference_image_tie_break:
  "(\<forall>pre img post. images = pre @ img # post \<and> Some (img_id img) = rid
        \<and> (\<forall>p\<in>set pre. Some (img_id p) \<noteq> rid)
      \<longrightarrow> findReferenceImage images rid = Inr img)
   \<and> ((\<forall>i\<in>set images. Some (img_id i) \<noteq> rid) \<longrightarrow>
        (\<forall>pre img post. images = pre @ img # post \<and> label img = label_main
            \<and> (\<forall>p\<in>set pre. label p \<noteq> label_main)
          \<longrightarrow> findReferenceImage images rid = Inr img))
   \<and> ((\<forall>i\<in>set images. Some (img_id i) \<noteq> rid \<and> label i \<noteq> label_main) \<longrightarrow>
        (\<forall>img rest. images = img # rest \<longrightarrow> findReferenceImage images rid = Inr img))
   \<and> ((\<exists>e. findReferenceImage images rid = Inl e) \<longleftrightarrow> images = [])
   \<and> (inputData st = Some input \<and> referenceImages input = images \<longrightarrow>
        calls (generateImageForItem env st itemId rid prompt upd) =
          (case findReferenceImage images rid of
             Inl e \<Rightarrow> []
           | Inr img \<Rightarrow> [ImageCall (base64 img) (mimeType img) prompt]))
   \<and> (inputData st = Some input \<and> referenceImages input = images
        \<and> findReferenceImage images rid = Inr chosen \<longrightarrow>
        requestImage env input rid prompt =
          (generateProductImage env (base64 chosen) (mimeType chosen) prompt,
           [ImageCall (base64 chosen) (mimeType chosen) prompt])
        \<and> settled (generateImageForItem env st itemId rid prompt upd) =
            (case generateProductImage env (base64 chosen) (mimeType chosen) prompt of
               Inr url \<Rightarrow> upd Completed (Some url) (upd Generating None st)
             | Inl e \<Rightarrow>
                 reportImageError env (language st) e (upd Failed None (upd Generating None st))))
   \<and> (getAiClient env = Inr ai \<longrightarrow>
        generateProductImage env (base64 chosen) (mimeType chosen) prompt =
          (case (case imageContent env prompt
                        (fst (compressImage env (base64 chosen) (mimeType chosen)))
                        (snd (compressImage env (base64 chosen) (mimeType chosen))) of
                   Inl e \<Rightarrow> Inl e
                 | Inr parts \<Rightarrow> firstInlineData parts) of
             Inr url \<Rightarrow> Inr url
           | Inl e \<Rightarrow>
               if str_includes (message e) ''403'' then
                 Inl (Error ''Permission Denied (403). It seems your API Key supports the model but not 2K resolution or the payload was too large. (Optimization applied, please retry).'')
               else Inl e))"
proof -
  have 1: "\<forall>pre img post. images = pre @ img # post \<and> Some (img_id img) = rid
        \<and> (\<forall>p\<in>set pre. Some (img_id p) \<noteq> rid)
      \<longrightarrow> findReferenceImage images rid = Inr img"
    using findReferenceImage_by_id by blast
  have 2: "(\<forall>i\<in>set images. Some (img_id i) \<noteq> rid) \<longrightarrow>
        (\<forall>pre img post. images = pre @ img # post \<and> label img = label_main
            \<and> (\<forall>p\<in>set pre. label p \<noteq> label_main)
          \<longrightarrow> findReferenceImage images rid = Inr img)"
    using findReferenceImage_by_label by blast
  have 3: "(\<forall>i\<in>set images. Some (img_id i) \<noteq> rid \<and> label i \<noteq> label_main) \<longrightarrow>
        (\<forall>img rest. images = img # rest \<longrightarrow> findReferenceImage images rid = Inr img)"
    using findReferenceImage_first by blast
  have 5: "inputData st = Some input \<and> referenceImages input = images \<longrightarrow>
        calls (generateImageForItem env st itemId rid prompt upd) =
          (case findReferenceImage images rid of
             Inl e \<Rightarrow> []
           | Inr img \<Rightarrow> [ImageCall (base64 img) (mimeType img) prompt])"
    using generateImageForItem_calls by blast
  have 6: "inputData st = Some input \<and> referenceImages input = images
        \<and> findReferenceImage images rid = Inr chosen \<longrightarrow>
        requestImage env input rid prompt =
          (generateProductImage env (base64 chosen) (mimeType chosen) prompt,
           [ImageCall (base64 chosen) (mimeType chosen) prompt])
        \<and> settled (generateImageForItem env st itemId rid prompt upd) =
            (case generateProductImage env (base64 chosen) (mimeType chosen) prompt of
               Inr url \<Rightarrow> upd Completed (Some url) (upd Generating None st)
             | Inl e \<Rightarrow>
                 reportImageError env (language st) e (upd Failed None (upd Generating None st)))"
    using requestImage_chosen generateImageForItem_settled_chosen by blast
  have 7: "getAiClient env = Inr ai \<longrightarrow>
        generateProductImage env (base64 chosen) (mimeType chosen) prompt =
          (case (case imageContent env prompt
                        (fst (compressImage env (base64 chosen) (mimeType chosen)))
                        (snd (compressImage env (base64 chosen) (mimeType chosen))) of
                   Inl e \<Rightarrow> Inl e
                 | Inr parts \<Rightarrow> firstInlineData parts) of
             Inr url \<Rightarrow> Inr url
           | Inl e \<Rightarrow>
               if str_includes (message e) ''403'' then
                 Inl (Error ''Permission Denied (403). It seems your API Key supports the model but not 2K resolution or the payload was too large. (Optimization applied, please retry).'')
               else Inl e)"
    using generateProductImage_request by blast
  note 4 = findReferenceImage_fails_iff [of images rid]
  show ?thesis
    by (intro conjI) (rule 1, rule 2, rule 3, rule 4, rule 5, rule 6, rule 7)
qed

theorem reference_image_tie_break_witness:
  "findReferenceImage [imgA, imgB] (Some ''img_a'') = Inr imgA
   \<and> findReferenceImage [imgA, imgB] (Some ''ghost'') = Inr imgB
   \<and> findReferenceImage [imgA, imgB] None = Inr imgB
   \<and> findReferenceImage [imgA] None = Inr imgA
   \<and> (\<exists>e. findReferenceImage [] (Some ''img_a'') = Inl e)
   \<and> calls (generateImageForItem demoEnv plannedState ''h1'' (Some ''ghost'') ''mug''
              (heroUpdater ''h1'')) = [ImageCall ''QkJC'' ''image/webp'' ''mug'']
   \<and> fst (requestImage echoEnv demoInput (Some ''ghost'') ''mug'') =
       Inr ''data:image/png;base64,image/webp:QkJC''"
proof -
  note byId = reference_image_tie_break [THEN conjunct1, rule_format]
  note byLabel = reference_image_tie_break [THEN conjunct2, THEN conjunct1, rule_format]
  note first = reference_image_tie_break [THEN conjunct2, THEN conjunct2, THEN conjunct1, rule_format]
  note fails = reference_image_tie_break [THEN conjunct2, THEN conjunct2, THEN conjunct2, THEN conjunct1]
  note sent = reference_image_tie_break [THEN conjunct2, THEN conjunct2, THEN conjunct2,
      THEN conjunct2, THEN conjunct1, rule_format]
  note passed = reference_image_tie_break [THEN conjunct2, THEN conjunct2, THEN conjunct2,
      THEN conjunct2, THEN conjunct2, THEN conjunct1, THEN mp, THEN conjunct1]
  note request = reference_image_tie_break [THEN conjunct2, THEN conjunct2, THEN conjunct2,
      THEN conjunct2, THEN conjunct2, THEN conjunct2, THEN mp]
  have 1: "findReferenceImage [imgA, imgB] (Some ''img_a'') = Inr imgA"
    by (rule byId [of _ "[]" imgA "[imgB]"]) (simp add: imgA_def)
  have noid: "\<And>i. i \<in> set [imgA, imgB] \<Longrightarrow> Some (img_id i) \<noteq> Some ''ghost''"
    by (auto simp: imgA_def imgB_def)
  have lab: "[imgA, imgB] = [imgA] @ imgB # [] \<and> label imgB = label_main
               \<and> (\<forall>p\<in>set [imgA]. label p \<noteq> label_main)"
    by (simp add: imgA_def imgB_def)
  have 2: "findReferenceImage [imgA, imgB] (Some ''ghost'') = Inr imgB"
    by (rule byLabel [of "[imgA, imgB]" "Some ''ghost''" "[imgA]" imgB "[]"]) (fact noid lab)+
  have 3: "findReferenceImage [imgA, imgB] None = Inr imgB"
    by (rule byLabel [of "[imgA, imgB]" None "[imgA]" imgB "[]"]) (simp, fact lab)
  have 4: "findReferenceImage [imgA] None = Inr imgA"
    by (rule first [of "[imgA]" None imgA "[]"]) (simp_all add: imgA_def)
  have 5: "\<exists>e. findReferenceImage [] (Some ''img_a'') = Inl e"
    using fails [of "[]" "Some ''img_a''"] by simp
  have inp: "inputData plannedState = Some demoInput \<and> referenceImages demoInput = [imgA, imgB]"
    by (simp add: plannedState_eq demoInput_def)
  have 6: "calls (generateImageForItem demoEnv plannedState ''h1'' (Some ''ghost'') ''mug''
              (heroUpdater ''h1'')) = [ImageCall ''QkJC'' ''image/webp'' ''mug'']"
    using sent [of plannedState demoInput "[imgA, imgB]" demoEnv "''h1''" "Some ''ghost''" "''mug''"
            "heroUpdater ''h1''", OF inp] 2
    by (simp add: imgB_def)
  have k: "getAiClient echoEnv = Inr (''key'', None)"
    by (simp add: getAiClient_def getApiKey_def js_or_def trim_key echoEnv_def demoEnv_def)
  have c: "compressImage echoEnv (base64 imgB) (mimeType imgB) = (''QkJC'', ''image/webp'')"
    by (simp add: compressImage_def echoEnv_def imgB_def)
  have e: "imageContent echoEnv ''mug'' ''QkJC'' ''image/webp'' = Inr [Some ''image/webp:QkJC'']"
    by (simp add: echoEnv_def)
  have g: "generateProductImage echoEnv (base64 imgB) (mimeType imgB) ''mug'' =
             Inr ''data:image/png;base64,image/webp:QkJC''"
    using request [OF k, of imgB "''mug''"] by (simp add: c e)
  have inp': "inputData plannedState = Some demoInput \<and> referenceImages demoInput = [imgA, imgB]
      \<and> findReferenceImage [imgA, imgB] (Some ''ghost'') = Inr imgB"
    using inp 2 by simp
  have 7: "fst (requestImage echoEnv demoInput (Some ''ghost'') ''mug'') =
             Inr ''data:image/png;base64,image/webp:QkJC''"
    using passed [OF inp', of echoEnv "''mug''"] g by simp
  from 1 2 3 4 5 6 7 show ?thesis by blast
qed

subsection \<open>Preprocessing of reference images\<close>

lemma mathRoundDiv_le:
  assumes "a \<le> b" "0 < b"
  shows "mathRoundDiv (a * MAX_SIZE) b \<le> MAX_SIZE"
proof -
  have "2 * (a * MAX_SIZE) + b \<le> 2 * (b * MAX_SIZE) + b"
    using assms(1) by simp
  also have "\<dots> < (MAX_SIZE + 1) * (2 * b)"
    using assms(2) by (simp add: algebra_simps)
  finally have "(2 * (a * MAX_SIZE) + b) div (2 * b) < MAX_SIZE + 1"
    using assms(2) by (simp add: less_mult_imp_div_less)
  then show ?thesis by (simp add: mathRoundDiv_def)
qed

lemma canvasSize_bounded:
  "fst (canvasSize w h) \<le> MAX_SIZE \<and> snd (canvasSize w h) \<le> MAX_SIZE"
proof (cases "w > MAX_SIZE \<or> h > MAX_SIZE")
  case False
  then show ?thesis by (simp add: canvasSize_def)
next
  case big: True
  show ?thesis
  proof (cases "w > h")
    case True
    then have "mathRoundDiv (h * MAX_SIZE) w \<le> MAX_SIZE"
      by (intro mathRoundDiv_le) simp_all
    with big True show ?thesis by (simp add: canvasSize_def)
  next
    case False
    with big have "0 < h" by (auto simp: MAX_SIZE_def)
    with False have "mathRoundDiv (w * MAX_SIZE) h \<le> MAX_SIZE"
      by (intro mathRoundDiv_le) simp_all
    with big False show ?thesis by (simp add: canvasSize_def)
  qed
qed

lemma canvasSize_small: "w \<le> MAX_SIZE \<Longrightarrow> h \<le> MAX_SIZE \<Longrightarrow> canvasSize w h = (w, h)"
  by (simp add: canvasSize_def)

lemma compressImage_loaded:
  assumes "loadImage env b m = Loaded w h"
  shows "compressImage env b m =
           (canvasJpeg env b m (fst (canvasSize w h)) (snd (canvasSize w h)), ''image/jpeg'')"
  using assms by (simp add: compressImage_def split: prod.splits)

lemma processedImages_loaded:
  assumes "\<forall>img\<in>set images. \<exists>w h. loadImage env (base64 img) (mimeType img) = Loaded w h"
  shows "\<forall>p\<in>set (processedImages env images). mimeType p = ''image/jpeg''"
proof
  fix p assume "p \<in> set (processedImages env images)"
  then obtain img where i: "img \<in> set images"
    and p: "p = (case compressImage env (base64 img) (mimeType img) of
                   (d, m) \<Rightarrow> img\<lparr>base64 := d, mimeType := m\<rparr>)"
    by (auto simp: processedImages_def)
  from i assms obtain w h where "loadImage env (base64 img) (mimeType img) = Loaded w h"
    by blast
  then show "mimeType p = ''image/jpeg''"
    using p by (simp add: compressImage_loaded)
qed

text \<open>
  C6, as the code has it. When the browser loads the image, \<open>compressImage\<close> returns the
  JPEG export of a canvas whose two edges are at most 1024 pixels (the size of the
  image itself when it was within the bound), with the MIME type \<^verbatim>\<open>image/jpeg\<close>; and when
  every image of the list loads, every image that \<open>analyzeProductData\<close> sends has the MIME
  type \<^verbatim>\<open>image/jpeg\<close>. When the image does not load, \<open>compressImage\<close> returns the
  data and the MIME type it was given. The analysis endpoint receives each image of the
  list so processed, and the image endpoint receives what \<open>compressImage\<close> returns for
  the reference image.
\<close>

lemma compressImage_not_loaded:
  "loadImage env b m = LoadError \<Longrightarrow> compressImage env b m = (b, m)"
  by (simp add: compressImage_def)

lemma processedImages_each:
  "processedImages env images =
     map (\<lambda>img. case loadImage env (base64 img) (mimeType img) of
                  Loaded w h \<Rightarrow>
                    img\<lparr>base64 := canvasJpeg env (base64 img) (mimeType img)
                                    (fst (canvasSize w h)) (snd (canvasSize w h)),
                        mimeType := ''image/jpeg''\<rparr>
                | LoadError \<Rightarrow> img) images"
  unfolding processedImages_def
proof (rule map_cong [OF refl])
  fix img :: ReferenceImage
  show "(case compressImage env (base64 img) (mimeType img) of
           (d, m) \<Rightarrow> img\<lparr>base64 := d, mimeType := m\<rparr>) =
        (case loadImage env (base64 img) (mimeType img) of
           Loaded w h \<Rightarrow>
             img\<lparr>base64 := canvasJpeg env (base64 img) (mimeType img)
                             (fst (canvasSize w h)) (snd (canvasSize w h)),
                 mimeType := ''image/jpeg''\<rparr>
         | LoadError \<Rightarrow> img)"
  proof (cases "loadImage env (base64 img) (mimeType img)")
    case LoadError
    then show ?thesis by (simp add: compressImage_not_loaded)
  next
    case (Loaded w h)
    then show ?thesis by (simp add: compressImage_loaded)
  qed
qed

lemma analyzeProductData_request:
  assumes "getAiClient env = Inr ai"
  shows "analyzeProductData env images nm feats lang =
           (case analysisContent env (processedImages env images) nm feats lang of
              Inl e \<Rightarrow> Inl e
            | Inr txt \<Rightarrow>
                if \<not> truthy txt then Inl (Error ''No analysis generated'')
                else jsonParse env (or_default txt []))"
  using assms by (simp add: analyzeProductData_def)

theorem compressImage_when_loaded:
  "(loadImage env b m = Loaded w h \<longrightarrow>
      (\<exists>w' h'. canvasSize w h = (w', h')
         \<and> compressImage env b m = (canvasJpeg env b m w' h', ''image/jpeg'')
         \<and> max w' h' \<le> 1024
         \<and> (w \<le> 1024 \<and> h \<le> 1024 \<longrightarrow> w' = w \<and> h' = h)))
   \<and> ((\<forall>img\<in>set images. \<exists>w h. loadImage env (base64 img) (mimeType img) = Loaded w h) \<longrightarrow>
        (\<forall>p\<in>set (processedImages env images). mimeType p = ''image/jpeg''))
   \<and> (loadImage env b m = LoadError \<longrightarrow> compressImage env b m = (b, m))
   \<and> processedImages env images =
       map (\<lambda>img. case loadImage env (base64 img) (mimeType img) of
                    Loaded w h \<Rightarrow>
                      img\<lparr>base64 := canvasJpeg env (base64 img) (mimeType img)
                                      (fst (canvasSize w h)) (snd (canvasSize w h)),
                          mimeType := ''image/jpeg''\<rparr>
                  | LoadError \<Rightarrow> img) images
   \<and> (getAiClient env = Inr ai \<longrightarrow>
        analyzeProductData env images nm feats lang =
          (case analysisContent env (processedImages env images) nm feats lang of
             Inl e \<Rightarrow> Inl e
           | Inr txt \<Rightarrow>
               if \<not> truthy txt then Inl (Error ''No analysis generated'')
               else jsonParse env (or_default txt []))
        \<and> generateProductImage env b m prompt =
            (case (case imageContent env prompt (fst (compressImage env b m))
                          (snd (compressImage env b m)) of
                     Inl e \<Rightarrow> Inl e
                   | Inr parts \<Rightarrow> firstInlineData parts) of
               Inr url \<Rightarrow> Inr url
             | Inl e \<Rightarrow>
                 if str_includes (message e) ''403'' then
                   Inl (Error ''Permission Denied (403). It seems your API Key supports the model but not 2K resolution or the payload was too large. (Optimization applied, please retry).'')
                 else Inl e))"
proof (intro conjI impI)
  show "processedImages env images =
       map (\<lambda>img. case loadImage env (base64 img) (mimeType img) of
                    Loaded w h \<Rightarrow>
                      img\<lparr>base64 := canvasJpeg env (base64 img) (mimeType img)
                                      (fst (canvasSize w h)) (snd (canvasSize w h)),
                          mimeType := ''image/jpeg''\<rparr>
                  | LoadError \<Rightarrow> img) images"
    by (rule processedImages_each)
next
  assume "loadImage env b m = LoadError"
  then show "compressImage env b m = (b, m)" by (rule compressImage_not_loaded)
next
  assume k: "getAiClient env = Inr ai"
  show "analyzeProductData env images nm feats lang =
          (case analysisContent env (processedImages env images) nm feats lang of
             Inl e \<Rightarrow> Inl e
           | Inr txt \<Rightarrow>
               if \<not> truthy txt then Inl (Error ''No analysis generated'')
               else jsonParse env (or_default txt []))"
    by (rule analyzeProductData_request [OF k])
  show "generateProductImage env b m prompt =
            (case (case imageContent env prompt (fst (compressImage env b m))
                          (snd (compressImage env b m)) of
                     Inl e \<Rightarrow> Inl e
                   | Inr parts \<Rightarrow> firstInlineData parts) of
               Inr url \<Rightarrow> Inr url
             | Inl e \<Rightarrow>
                 if str_includes (message e) ''403'' then
                   Inl (Error ''Permission Denied (403). It seems your API Key supports the model but not 2K resolution or the payload was too large. (Optimization applied, please retry).'')
                 else Inl e)"
    by (rule generateProductImage_request [OF k])
next
  assume l: "loadImage env b m = Loaded w h"
  obtain w' h' where c: "canvasSize w h = (w', h')" by (cases "canvasSize w h")
  have 1: "compressImage env b m = (canvasJpeg env b m w' h', ''image/jpeg'')"
    using compressImage_loaded [OF l] c by simp
  have 2: "max w' h' \<le> 1024"
    using canvasSize_bounded [of w h] c by (simp add: MAX_SIZE_def)
  have 3: "w \<le> 1024 \<and> h \<le> 1024 \<longrightarrow> w' = w \<and> h' = h"
    using canvasSize_small [of w h] c by (simp add: MAX_SIZE_def)
  from c 1 2 3 show "\<exists>w' h'. canvasSize w h = (w', h')
         \<and> compressImage env b m = (canvasJpeg env b m w' h', ''image/jpeg'')
         \<and> max w' h' \<le> 1024
         \<and> (w \<le> 1024 \<and> h \<le> 1024 \<longrightarrow> w' = w \<and> h' = h)" by blast
next
  assume "\<forall>img\<in>set images. \<exists>w h. loadImage env (base64 img) (mimeType img) = Loaded w h"
  then show "\<forall>p\<in>set (processedImages env images). mimeType p = ''image/jpeg''"
    by (rule processedImages_loaded)
qed

theorem compressImage_when_loaded_witness:
  "canvasSize 2048 1024 = (1024, 512)
   \<and> compressImage demoEnv ''QUFB'' ''image/png'' = (''SlBFRw=='', ''image/jpeg'')
   \<and> map mimeType (processedImages demoEnv [imgA, imgB]) = [''image/jpeg'', ''image/jpeg'']
   \<and> compressImage echoEnv ''QUFB'' ''image/png'' = (''QUFB'', ''image/png'')
   \<and> generateProductImage echoEnv ''QUFB'' ''image/png'' ''mug'' =
       Inr ''data:image/png;base64,image/png:QUFB''"
proof -
  have l: "loadImage demoEnv ''QUFB'' ''image/png'' = Loaded 2048 1024"
    by (simp add: demoEnv_def)
  have c: "canvasSize 2048 1024 = (1024, 512)"
    by (simp add: canvasSize_def MAX_SIZE_def mathRoundDiv_def)
  have j: "canvasJpeg demoEnv ''QUFB'' ''image/png'' 1024 512 = ''SlBFRw==''"
    by (simp add: demoEnv_def)
  have 1: "compressImage demoEnv ''QUFB'' ''image/png'' = (''SlBFRw=='', ''image/jpeg'')"
    using compressImage_when_loaded [THEN conjunct1, rule_format, OF l] c j by auto
  have a: "\<forall>img\<in>set [imgA, imgB].
             \<exists>w h. loadImage demoEnv (base64 img) (mimeType img) = Loaded w h"
    by (simp add: demoEnv_def)
  have len: "length (processedImages demoEnv [imgA, imgB]) = 2"
    by (simp add: processedImages_def)
  then obtain p q where pq: "processedImages demoEnv [imgA, imgB] = [p, q]"
    by (auto simp: length_Suc_conv numeral_2_eq_2)
  have 2: "map mimeType (processedImages demoEnv [imgA, imgB]) = [''image/jpeg'', ''image/jpeg'']"
    using compressImage_when_loaded [THEN conjunct2, THEN conjunct1, THEN mp, OF a] pq by simp
  have e: "loadImage echoEnv ''QUFB'' ''image/png'' = LoadError" by (simp add: echoEnv_def)
  have 3: "compressImage echoEnv ''QUFB'' ''image/png'' = (''QUFB'', ''image/png'')"
    by (rule compressImage_when_loaded [THEN conjunct2, THEN conjunct2, THEN conjunct1, THEN mp,
          OF e])
  have k: "getAiClient echoEnv = Inr (''key'', None)"
    by (simp add: getAiClient_def getApiKey_def js_or_def trim_key echoEnv_def demoEnv_def)
  have r: "imageContent echoEnv ''mug'' ''QUFB'' ''image/png'' = Inr [Some ''image/png:QUFB'']"
    by (simp add: echoEnv_def)
  have 4: "generateProductImage echoEnv ''QUFB'' ''image/png'' ''mug'' =
             Inr ''data:image/png;base64,image/png:QUFB''"
    using compressImage_when_loaded [THEN conjunct2, THEN conjunct2, THEN conjunct2,
            THEN conjunct2, THEN mp, OF k, THEN conjunct2, of "''QUFB''" "''image/png''" "''mug''"]
    by (simp add: 3 r)
  from c 1 2 3 4 show ?thesis by blast
qed

text \<open>
  C6 fails as stated: when the image does not load, the \<^verbatim>\<open>onerror\<close> fallback returns the
  original data with the original MIME type, here \<^verbatim>\<open>image/png\<close>, and the analysis request
  carries the image as it was uploaded.
\<close>

theorem compressImage_fallback_counterexample:
  "compressImage undecodableEnv ''QUFB'' ''image/png'' = (''QUFB'', ''image/png'')
   \<and> processedImages undecodableEnv [imgA] = [imgA]
   \<and> ''image/png'' \<noteq> ''image/jpeg''"
  by (simp add: compressImage_def processedImages_def undecodableEnv_def demoEnv_def imgA_def)

subsection \<open>State updates\<close>

lemma analysis_setAnalysisWith [simp]:
  "analysis (setAnalysisWith f st) = map_option f (analysis st)"
  by (simp add: setAnalysisWith_def)

lemma setAnalysisWith_Some:
  "analysis st = Some a \<Longrightarrow> setAnalysisWith f st = st\<lparr>analysis := Some (f a)\<rparr>"
  by (simp add: setAnalysisWith_def)


lemma pollTask_first:
  "pollStep (task 0) = Some r \<Longrightarrow> pollTask task 0 = (r, [Sleep 5000, GetTask 0])"
  by (subst pollTask.simps) (simp add: maxAttempts_def)

subsection \<open>Image generation: the state of the item\<close>

lemma requestImage_no_image:
  "findReferenceImage (referenceImages input) rid = Inl e \<Longrightarrow>
     requestImage env input rid prompt = (Inl e, [])"
  by (simp add: requestImage_def)

lemma generateImageForItem_inflight:
  assumes "inputData st = Some input"
  shows "inflight (generateImageForItem env st itemId rid prompt upd) =
           (case findReferenceImage (referenceImages input) rid of
              Inl e \<Rightarrow>
                reportImageError env (language st) e (upd Failed None (upd Generating None st))
            | Inr img \<Rightarrow> upd Generating None st)"
proof (cases "findReferenceImage (referenceImages input) rid")
  case (Inl e)
  then show ?thesis
    using assms by (simp add: generateImageForItem_def Let_def requestImage_no_image)
next
  case (Inr img)
  then show ?thesis
    using assms
    by (simp add: generateImageForItem_def Let_def requestImage_chosen split: sum.splits)
qed

lemma findReferenceImage_cases:
  "(case findReferenceImage images rid of Inl e \<Rightarrow> x | Inr img \<Rightarrow> y) =
     (if images = [] then x else y)"
  using findReferenceImage_fails_iff [of images rid]
  by (cases "findReferenceImage images rid") auto

lemma generateImageForItem_failed:
  assumes "inputData st = Some input"
    and "fst (requestImage env input rid prompt) = Inl e"
  shows "settled (generateImageForItem env st itemId rid prompt upd) =
           reportImageError env (language st) e (upd Failed None (upd Generating None st))"
  using assms
  by (auto simp: generateImageForItem_def Let_def split: prod.splits sum.splits)

lemma generateImageForItem_completed:
  assumes "inputData st = Some input"
    and "fst (requestImage env input rid prompt) = Inr url"
  shows "settled (generateImageForItem env st itemId rid prompt upd) =
           upd Completed (Some url) (upd Generating None st)"
  using assms
  by (auto simp: generateImageForItem_def Let_def split: prod.splits sum.splits)

lemma analysis_reportImageError [simp]:
  "analysis (reportImageError env lang e st) = analysis st"
  by (simp add: reportImageError_def)

lemma sectionUpdater_once:
  assumes "analysis st = Some a"
  shows "analysis (sectionUpdater sid s u st) =
           Some (a\<lparr>sections := map (\<lambda>x. if sec_id x = sid
                                          then x\<lparr>sec_status := s, sec_generatedImageUrl := u\<rparr>
                                          else x) (sections a)\<rparr>)"
  using assms by (simp add: sectionUpdater_def)

lemma sectionUpdater_twice:
  assumes "analysis st = Some a"
  shows "analysis (sectionUpdater sid s u (sectionUpdater sid s0 u0 st)) =
           Some (a\<lparr>sections := map (\<lambda>x. if sec_id x = sid
                                          then x\<lparr>sec_status := s, sec_generatedImageUrl := u\<rparr>
                                          else x) (sections a)\<rparr>)"
  using assms by (simp add: sectionUpdater_def comp_def if_distrib [of sec_id] cong: if_cong)

lemma heroUpdater_once:
  assumes "analysis st = Some a"
  shows "analysis (heroUpdater hid s u st) =
           Some (a\<lparr>heroImages := map (\<lambda>x. if hero_id x = hid
                                            then x\<lparr>hero_status := s, hero_generatedImageUrl := u\<rparr>
                                            else x) (heroImages a)\<rparr>)"
  using assms by (simp add: heroUpdater_def)

lemma heroUpdater_twice:
  assumes "analysis st = Some a"
  shows "analysis (heroUpdater hid s u (heroUpdater hid s0 u0 st)) =
           Some (a\<lparr>heroImages := map (\<lambda>x. if hero_id x = hid
                                            then x\<lparr>hero_status := s, hero_generatedImageUrl := u\<rparr>
                                            else x) (heroImages a)\<rparr>)"
  using assms by (simp add: heroUpdater_def comp_def if_distrib [of hero_id] cong: if_cong)

lemma handleGenerateSection_unfold:
  assumes "analysis st = Some a"
    and "find (\<lambda>s. sec_id s = sectionId) (sections a) = Some section"
  shows "handleGenerateSection env st sectionId =
           generateImageForItem env st sectionId (sec_referenceImageId section)
             (sec_imagePrompt section) (sectionUpdater sectionId)"
  using assms by (simp add: handleGenerateSection_def)

lemma handleGenerateHeroImage_unfold:
  assumes "analysis st = Some a"
    and "find (\<lambda>h. hero_id h = heroId) (heroImages a) = Some hero"
  shows "handleGenerateHeroImage env st heroId =
           generateImageForItem env st heroId (hero_referenceImageId hero)
             (hero_imagePrompt hero) (heroUpdater heroId)"
  using assms by (simp add: handleGenerateHeroImage_def)

lemma section_inflight:
  assumes "analysis st = Some a" "inputData st = Some input"
    and "find (\<lambda>s. sec_id s = sectionId) (sections a) = Some section"
  shows "analysis (inflight (handleGenerateSection env st sectionId)) =
           Some (a\<lparr>sections := map (\<lambda>s. if sec_id s = sectionId
                        then s\<lparr>sec_status := (if referenceImages input = [] then Failed
                                               else Generating),
                               sec_generatedImageUrl := None\<rparr>
                        else s) (sections a)\<rparr>)"
proof (cases "findReferenceImage (referenceImages input) (sec_referenceImageId section)")
  case (Inl e)
  then have "referenceImages input = []"
    using findReferenceImage_fails_iff by blast
  with Inl show ?thesis
    by (simp add: handleGenerateSection_unfold [OF assms(1,3)]
          generateImageForItem_inflight [OF assms(2)] sectionUpdater_twice [OF assms(1)])
next
  case (Inr img)
  then have "referenceImages input \<noteq> []"
    using findReferenceImage_fails_iff [of "referenceImages input" "sec_referenceImageId section"]
    by auto
  with Inr show ?thesis
    by (simp add: handleGenerateSection_unfold [OF assms(1,3)]
          generateImageForItem_inflight [OF assms(2)] sectionUpdater_once [OF assms(1)])
qed

lemma section_failed:
  assumes "analysis st = Some a" "inputData st = Some input"
    and "find (\<lambda>s. sec_id s = sectionId) (sections a) = Some section"
    and "fst (requestImage env input (sec_referenceImageId section) (sec_imagePrompt section)) = Inl e"
  shows "settled (handleGenerateSection env st sectionId) =
           reportImageError env (language st) e
             (sectionUpdater sectionId Failed None (sectionUpdater sectionId Generating None st))"
    and "analysis (settled (handleGenerateSection env st sectionId)) =
           Some (a\<lparr>sections := map (\<lambda>s. if sec_id s = sectionId
                        then s\<lparr>sec_status := Failed, sec_generatedImageUrl := None\<rparr>
                        else s) (sections a)\<rparr>)"
  by (simp_all add: handleGenerateSection_unfold [OF assms(1,3)]
        generateImageForItem_failed [OF assms(2,4)] sectionUpdater_twice [OF assms(1)])

lemma hero_inflight:
  assumes "analysis st = Some a" "inputData st = Some input"
    and "find (\<lambda>h. hero_id h = heroId) (heroImages a) = Some hero"
  shows "analysis (inflight (handleGenerateHeroImage env st heroId)) =
           Some (a\<lparr>heroImages := map (\<lambda>h. if hero_id h = heroId
                        then h\<lparr>hero_status := (if referenceImages input = [] then Failed
                                                else Generating),
                               hero_generatedImageUrl := None\<rparr>
                        else h) (heroImages a)\<rparr>)"
proof (cases "findReferenceImage (referenceImages input) (hero_referenceImageId hero)")
  case (Inl e)
  then have "referenceImages input = []"
    using findReferenceImage_fails_iff by blast
  with Inl show ?thesis
    by (simp add: handleGenerateHeroImage_unfold [OF assms(1,3)]
          generateImageForItem_inflight [OF assms(2)] heroUpdater_twice [OF assms(1)])
next
  case (Inr img)
  then have "referenceImages input \<noteq> []"
    using findReferenceImage_fails_iff [of "referenceImages input" "hero_referenceImageId hero"]
    by auto
  with Inr show ?thesis
    by (simp add: handleGenerateHeroImage_unfold [OF assms(1,3)]
          generateImageForItem_inflight [OF assms(2)] heroUpdater_once [OF assms(1)])
qed

lemma hero_failed:
  assumes "analysis st = Some a" "inputData st = Some input"
    and "find (\<lambda>h. hero_id h = heroId) (heroImages a) = Some hero"
    and "fst (requestImage env input (hero_referenceImageId hero) (hero_imagePrompt hero)) = Inl e"
  shows "settled (handleGenerateHeroImage env st heroId) =
           reportImageError env (language st) e
             (heroUpdater heroId Failed None (heroUpdater heroId Generating None st))"
    and "analysis (settled (handleGenerateHeroImage env st heroId)) =
           Some (a\<lparr>heroImages := map (\<lambda>h. if hero_id h = heroId
                        then h\<lparr>hero_status := Failed, hero_generatedImageUrl := None\<rparr>
                        else h) (heroImages a)\<rparr>)"
  by (simp_all add: handleGenerateHeroImage_unfold [OF assms(1,3)]
        generateImageForItem_failed [OF assms(2,4)] heroUpdater_twice [OF assms(1)])

text \<open>
  C9. Once image generation is triggered for a section or a hero image (with a plan, an
  input and the item present), the items with that identifier have the status generating
  and no generated image while the request is in flight; when the request fails they have
  the status failed and still no generated image, whatever image they had before. All
  other items and fields of the plan are unchanged. (With no reference image at all the
  handler fails before it suspends, and the state it is seen in is already the failed
  one, again with no generated image.)
\<close>

theorem image_generation_discards_previous_image:
  "(analysis st = Some a \<and> inputData st = Some input
      \<and> find (\<lambda>s. sec_id s = sectionId) (sections a) = Some section \<longrightarrow>
      analysis (inflight (handleGenerateSection env st sectionId)) =
        Some (a\<lparr>sections := map (\<lambda>s. if sec_id s = sectionId
                     then s\<lparr>sec_status := (if referenceImages input = [] then Failed
                                            else Generating),
                            sec_generatedImageUrl := None\<rparr>
                     else s) (sections a)\<rparr>)
      \<and> (\<forall>e. fst (requestImage env input (sec_referenceImageId section) (sec_imagePrompt section))
                = Inl e \<longrightarrow>
            analysis (settled (handleGenerateSection env st sectionId)) =
              Some (a\<lparr>sections := map (\<lambda>s. if sec_id s = sectionId
                           then s\<lparr>sec_status := Failed, sec_generatedImageUrl := None\<rparr>
                           else s) (sections a)\<rparr>)))
   \<and> (analysis st = Some a \<and> inputData st = Some input
      \<and> find (\<lambda>h. hero_id h = heroId) (heroImages a) = Some hero \<longrightarrow>
      analysis (inflight (handleGenerateHeroImage env st heroId)) =
        Some (a\<lparr>heroImages := map (\<lambda>h. if hero_id h = heroId
                     then h\<lparr>hero_status := (if referenceImages input = [] then Failed
                                             else Generating),
                            hero_generatedImageUrl := None\<rparr>
                     else h) (heroImages a)\<rparr>)
      \<and> (\<forall>e. fst (requestImage env input (hero_referenceImageId hero) (hero_imagePrompt hero))
                = Inl e \<longrightarrow>
            analysis (settled (handleGenerateHeroImage env st heroId)) =
              Some (a\<lparr>heroImages := map (\<lambda>h. if hero_id h = heroId
                           then h\<lparr>hero_status := Failed, hero_generatedImageUrl := None\<rparr>
                           else h) (heroImages a)\<rparr>)))"
  using section_inflight section_failed(2) hero_inflight hero_failed(2)
  by (intro conjI impI allI; elim conjE) blast+

lemma getAiClient_offlineEnv: "getAiClient offlineEnv = Inr (''key'', None)"
  by (simp add: getAiClient_def getApiKey_def js_or_def trim_key offlineEnv_def
        demoEnv_def)

lemma generateProductImage_offlineEnv:
  "generateProductImage offlineEnv b m p = Inl (Error ''Failed to fetch'')"
  by (simp add: generateProductImage_def getAiClient_offlineEnv split: prod.splits)
     (simp add: offlineEnv_def demoEnv_def)

lemma requestImage_offlineEnv:
  "fst (requestImage offlineEnv demoInput rid p) = Inl (Error ''Failed to fetch'')"
  by (simp add: requestImage_def generateProductImage_offlineEnv findReferenceImage_def
        demoInput_def split: option.splits)

lemma doneState_parts:
  "analysis doneState = Some donePlan" "inputData doneState = Some demoInput"
  "language doneState = en" "showSettings doneState = False"
  "find (\<lambda>s. sec_id s = ''s1'') (sections donePlan) = Some secDone"
  "find (\<lambda>h. hero_id h = ''h1'') (heroImages donePlan) = Some heroDone"
  by (simp_all add: doneState_def donePlan_def secDone_def secHeader_def heroDone_def
        heroFront_def)

lemma donePlan_items:
  "sections donePlan = [secDone, secSpecs\<lparr>sec_status := Completed\<rparr>]"
  "heroImages donePlan = [heroDone]"
  "sec_id secDone = ''s1''" "sec_id secSpecs = ''s2''" "hero_id heroDone = ''h1''"
  "sec_generatedImageUrl secDone = Some ''data:image/png;base64,T0xE''"
  "sec_generatedImageUrl secSpecs = None"
  "hero_generatedImageUrl heroDone = Some ''data:image/png;base64,T0xE''"
  "generatedVideoUrl heroDone = Some ''https://cdn.example/old.mp4''"
  "videoPrompt heroDone = None"
  by (simp_all add: donePlan_def secDone_def secHeader_def secSpecs_def heroDone_def
        heroFront_def)

theorem image_generation_discards_previous_image_witness:
  "map_option (map sec_generatedImageUrl \<circ> sections) (analysis doneState) =
     Some [Some ''data:image/png;base64,T0xE'', None]
   \<and> map_option (map (\<lambda>s. (sec_status s, sec_generatedImageUrl s)) \<circ> sections)
        (analysis (inflight (handleGenerateSection offlineEnv doneState ''s1''))) =
       Some [(Generating, None), (Completed, None)]
   \<and> map_option (map (\<lambda>s. (sec_status s, sec_generatedImageUrl s)) \<circ> sections)
        (analysis (settled (handleGenerateSection offlineEnv doneState ''s1''))) =
       Some [(Failed, None), (Completed, None)]
   \<and> map_option (map hero_generatedImageUrl \<circ> heroImages) (analysis doneState) =
       Some [Some ''data:image/png;base64,T0xE'']
   \<and> map_option (map (\<lambda>h. (hero_status h, hero_generatedImageUrl h)) \<circ> heroImages)
        (analysis (inflight (handleGenerateHeroImage offlineEnv doneState ''h1''))) =
       Some [(Generating, None)]
   \<and> map_option (map (\<lambda>h. (hero_status h, hero_generatedImageUrl h)) \<circ> heroImages)
        (analysis (settled (handleGenerateHeroImage offlineEnv doneState ''h1''))) =
       Some [(Failed, None)]
   \<and> map_option (map (\<lambda>h. (hero_status h, hero_generatedImageUrl h)) \<circ> heroImages)
        (analysis (inflight (handleGenerateHeroImage offlineEnv bareState ''h1''))) =
       Some [(Failed, None)]"
proof -
  have ne: "referenceImages demoInput \<noteq> []" by (simp add: demoInput_def)
  note sec = image_generation_discards_previous_image [THEN conjunct1, THEN mp]
  note hero = image_generation_discards_previous_image [THEN conjunct2, THEN mp]
  have ps: "analysis doneState = Some donePlan \<and> inputData doneState = Some demoInput
            \<and> find (\<lambda>s. sec_id s = ''s1'') (sections donePlan) = Some secDone"
    by (simp add: doneState_parts)
  have ph: "analysis doneState = Some donePlan \<and> inputData doneState = Some demoInput
            \<and> find (\<lambda>h. hero_id h = ''h1'') (heroImages donePlan) = Some heroDone"
    by (simp add: doneState_parts)
  have 1: "map_option (map sec_generatedImageUrl \<circ> sections) (analysis doneState) =
             Some [Some ''data:image/png;base64,T0xE'', None]"
    by (simp add: doneState_parts donePlan_items)
  have 2: "map_option (map (\<lambda>s. (sec_status s, sec_generatedImageUrl s)) \<circ> sections)
            (analysis (inflight (handleGenerateSection offlineEnv doneState ''s1''))) =
           Some [(Generating, None), (Completed, None)]"
    using sec [OF ps, of offlineEnv, THEN conjunct1] by (simp add: donePlan_items ne)
  have 3: "map_option (map (\<lambda>s. (sec_status s, sec_generatedImageUrl s)) \<circ> sections)
            (analysis (settled (handleGenerateSection offlineEnv doneState ''s1''))) =
           Some [(Failed, None), (Completed, None)]"
    using sec [OF ps, of offlineEnv, THEN conjunct2, rule_format, OF requestImage_offlineEnv]
    by (simp add: donePlan_items)
  have 4: "map_option (map hero_generatedImageUrl \<circ> heroImages) (analysis doneState) =
             Some [Some ''data:image/png;base64,T0xE'']"
    by (simp add: doneState_parts donePlan_items)
  have 5: "map_option (map (\<lambda>h. (hero_status h, hero_generatedImageUrl h)) \<circ> heroImages)
            (analysis (inflight (handleGenerateHeroImage offlineEnv doneState ''h1''))) =
           Some [(Generating, None)]"
    using hero [OF ph, of offlineEnv, THEN conjunct1] by (simp add: donePlan_items ne)
  have 6: "map_option (map (\<lambda>h. (hero_status h, hero_generatedImageUrl h)) \<circ> heroImages)
            (analysis (settled (handleGenerateHeroImage offlineEnv doneState ''h1''))) =
           Some [(Failed, None)]"
    using hero [OF ph, of offlineEnv, THEN conjunct2, rule_format, OF requestImage_offlineEnv]
    by (simp add: donePlan_items)
  have pb: "analysis bareState = Some donePlan
            \<and> inputData bareState = Some (demoInput\<lparr>referenceImages := []\<rparr>)
            \<and> find (\<lambda>h. hero_id h = ''h1'') (heroImages donePlan) = Some heroDone"
    by (simp add: bareState_def doneState_parts)
  have 7: "map_option (map (\<lambda>h. (hero_status h, hero_generatedImageUrl h)) \<circ> heroImages)
            (analysis (inflight (handleGenerateHeroImage offlineEnv bareState ''h1''))) =
           Some [(Failed, None)]"
    using hero [OF pb, of offlineEnv, THEN conjunct1] by (simp add: donePlan_items)
  from 1 2 3 4 5 6 7 show ?thesis by blast
qed

subsection \<open>Image generation: reporting a failure\<close>

lemma setAnalysisWith_other [simp]:
  "error (setAnalysisWith f st) = error st"
  "showSettings (setAnalysisWith f st) = showSettings st"
  "language (setAnalysisWith f st) = language st"
  "inputData (setAnalysisWith f st) = inputData st"
  "step (setAnalysisWith f st) = step st"
  by (simp_all add: setAnalysisWith_def)

lemma reportImageError_flags:
  "isPermissionError e \<Longrightarrow>
     error (reportImageError env lang e st) = Some (apiKeyError env lang)
     \<and> showSettings (reportImageError env lang e st)"
  "\<not> isPermissionError e \<Longrightarrow>
     error (reportImageError env lang e st) =
       Some (if message e \<noteq> [] then message e else ''Image generation failed. Please try again.'')
     \<and> showSettings (reportImageError env lang e st) = showSettings st"
  by (simp_all add: reportImageError_def)

lemma permission_message:
  "isPermissionError (Error ''Permission Denied (403). It seems your API Key supports the model but not 2K resolution or the payload was too large. (Optimization applied, please retry).'')"
  by (simp add: isPermissionError_def)

lemma generateProductImage_upstream_403:
  assumes "getAiClient env = Inr ai"
    and "imageContent env prompt (fst (compressImage env b m)) (snd (compressImage env b m)) = Inl e0"
    and "str_includes (message e0) ''403''"
  shows "generateProductImage env b m prompt =
           Inl (Error ''Permission Denied (403). It seems your API Key supports the model but not 2K resolution or the payload was too large. (Optimization applied, please retry).'')"
proof -
  obtain d mt where c: "compressImage env b m = (d, mt)" by (cases "compressImage env b m")
  with assms(2) have "imageContent env prompt d mt = Inl e0" by simp
  with assms(1,3) c show ?thesis by (simp add: generateProductImage_def)
qed

text \<open>
  C3, as the code has it. When the image request of a hero image or of a section fails
  with the error \<open>e\<close>:
  the status of the targeted item becomes failed; when the message of \<open>e\<close> contains
  \<^verbatim>\<open>403\<close> or \<^verbatim>\<open>Permission Denied\<close>, the error state is set to the API-key message and the
  settings dialog is opened; otherwise the error state is set to the message of \<open>e\<close> (or
  to the generic text when the message is empty) and the settings flag is left as it
  was. An upstream error whose message contains \<^verbatim>\<open>403\<close> leaves \<open>generateProductImage\<close>
  as such a permission error.
\<close>

theorem image_failure_reporting:
  "(analysis st = Some a \<and> inputData st = Some input
      \<and> find (\<lambda>h. hero_id h = heroId) (heroImages a) = Some hero
      \<and> fst (requestImage env input (hero_referenceImageId hero) (hero_imagePrompt hero)) = Inl e
    \<longrightarrow>
      analysis (settled (handleGenerateHeroImage env st heroId)) =
        Some (a\<lparr>heroImages := map (\<lambda>h. if hero_id h = heroId
                     then h\<lparr>hero_status := Failed, hero_generatedImageUrl := None\<rparr>
                     else h) (heroImages a)\<rparr>)
      \<and> (isPermissionError e \<longrightarrow>
            error (settled (handleGenerateHeroImage env st heroId)) =
              Some (apiKeyError env (language st))
            \<and> showSettings (settled (handleGenerateHeroImage env st heroId)))
      \<and> (\<not> isPermissionError e \<longrightarrow>
            error (settled (handleGenerateHeroImage env st heroId)) =
              Some (if message e \<noteq> [] then message e
                    else ''Image generation failed. Please try again.'')
            \<and> showSettings (settled (handleGenerateHeroImage env st heroId)) = showSettings st))
   \<and> (analysis st = Some a \<and> inputData st = Some input
      \<and> find (\<lambda>s. sec_id s = sectionId) (sections a) = Some section
      \<and> fst (requestImage env input (sec_referenceImageId section) (sec_imagePrompt section)) = Inl e
    \<longrightarrow>
      analysis (settled (handleGenerateSection env st sectionId)) =
        Some (a\<lparr>sections := map (\<lambda>s. if sec_id s = sectionId
                     then s\<lparr>sec_status := Failed, sec_generatedImageUrl := None\<rparr>
                     else s) (sections a)\<rparr>)
      \<and> (isPermissionError e \<longrightarrow>
            error (settled (handleGenerateSection env st sectionId)) =
              Some (apiKeyError env (language st))
            \<and> showSettings (settled (handleGenerateSection env st sectionId)))
      \<and> (\<not> isPermissionError e \<longrightarrow>
            error (settled (handleGenerateSection env st sectionId)) =
              Some (if message e \<noteq> [] then message e
                    else ''Image generation failed. Please try again.'')
            \<and> showSettings (settled (handleGenerateSection env st sectionId)) = showSettings st))
   \<and> (getAiClient env = Inr ai
      \<and> imageContent env prompt (fst (compressImage env b m)) (snd (compressImage env b m)) = Inl e0
      \<and> str_includes (message e0) ''403''
    \<longrightarrow> (\<exists>e'. generateProductImage env b m prompt = Inl e' \<and> isPermissionError e'))
   \<and> (isPermissionError e \<longleftrightarrow>
        str_includes (message e) ''403'' \<or> str_includes (message e) ''Permission Denied'')"
proof (intro conjI impI; (elim conjE)?)
  show "isPermissionError e \<longleftrightarrow>
        str_includes (message e) ''403'' \<or> str_includes (message e) ''Permission Denied''"
    by (simp add: isPermissionError_def)
next
  assume h: "analysis st = Some a" "inputData st = Some input"
    "find (\<lambda>h. hero_id h = heroId) (heroImages a) = Some hero"
    "fst (requestImage env input (hero_referenceImageId hero) (hero_imagePrompt hero)) = Inl e"
  show "analysis (settled (handleGenerateHeroImage env st heroId)) =
        Some (a\<lparr>heroImages := map (\<lambda>h. if hero_id h = heroId
                     then h\<lparr>hero_status := Failed, hero_generatedImageUrl := None\<rparr>
                     else h) (heroImages a)\<rparr>)"
    by (rule hero_failed(2) [OF h])
  { assume "isPermissionError e"
    then show "error (settled (handleGenerateHeroImage env st heroId)) =
                 Some (apiKeyError env (language st))"
      and "showSettings (settled (handleGenerateHeroImage env st heroId))"
      by (simp_all add: hero_failed(1) [OF h] reportImageError_flags(1)) }
  { assume "\<not> isPermissionError e"
    then show "error (settled (handleGenerateHeroImage env st heroId)) =
              Some (if message e \<noteq> [] then message e
                    else ''Image generation failed. Please try again.'')"
      and "showSettings (settled (handleGenerateHeroImage env st heroId)) = showSettings st"
      by (simp_all add: hero_failed(1) [OF h] reportImageError_flags(2) heroUpdater_def) }
next
  assume s: "analysis st = Some a" "inputData st = Some input"
    "find (\<lambda>s. sec_id s = sectionId) (sections a) = Some section"
    "fst (requestImage env input (sec_referenceImageId section) (sec_imagePrompt section)) = Inl e"
  show "analysis (settled (handleGenerateSection env st sectionId)) =
        Some (a\<lparr>sections := map (\<lambda>s. if sec_id s = sectionId
                     then s\<lparr>sec_status := Failed, sec_generatedImageUrl := None\<rparr>
                     else s) (sections a)\<rparr>)"
    by (rule section_failed(2) [OF s])
  { assume "isPermissionError e"
    then show "error (settled (handleGenerateSection env st sectionId)) =
                 Some (apiKeyError env (language st))"
      and "showSettings (settled (handleGenerateSection env st sectionId))"
      by (simp_all add: section_failed(1) [OF s] reportImageError_flags(1)) }
  { assume "\<not> isPermissionError e"
    then show "error (settled (handleGenerateSection env st sectionId)) =
              Some (if message e \<noteq> [] then message e
                    else ''Image generation failed. Please try again.'')"
      and "showSettings (settled (handleGenerateSection env st sectionId)) = showSettings st"
      by (simp_all add: section_failed(1) [OF s] reportImageError_flags(2) sectionUpdater_def) }
next
  assume "getAiClient env = Inr ai"
    "imageContent env prompt (fst (compressImage env b m)) (snd (compressImage env b m)) = Inl e0"
    "str_includes (message e0) ''403''"
  then show "\<exists>e'. generateProductImage env b m prompt = Inl e' \<and> isPermissionError e'"
    using generateProductImage_upstream_403 permission_message by metis
qed

lemma getAiClient_forbiddenEnv: "getAiClient forbiddenEnv = Inr (''key'', None)"
  by (simp add: getAiClient_def getApiKey_def js_or_def trim_key forbiddenEnv_def
        demoEnv_def)

lemma imageContent_forbiddenEnv:
  "imageContent forbiddenEnv p d m = Inl (Error ''got status: 403 Forbidden'')"
  by (simp add: forbiddenEnv_def demoEnv_def)

lemma generateProductImage_forbiddenEnv:
  "generateProductImage forbiddenEnv b m p =
     Inl (Error ''Permission Denied (403). It seems your API Key supports the model but not 2K resolution or the payload was too large. (Optimization applied, please retry).'')"
  by (rule generateProductImage_upstream_403
        [OF getAiClient_forbiddenEnv imageContent_forbiddenEnv]) simp

lemma requestImage_forbiddenEnv:
  "fst (requestImage forbiddenEnv demoInput rid p) =
     Inl (Error ''Permission Denied (403). It seems your API Key supports the model but not 2K resolution or the payload was too large. (Optimization applied, please retry).'')"
  by (simp add: requestImage_def generateProductImage_forbiddenEnv findReferenceImage_def
        demoInput_def split: option.splits)

lemma offline_message: "\<not> isPermissionError (Error ''Failed to fetch'')"
  by (simp add: isPermissionError_def)

theorem image_failure_reporting_witness:
  "error (settled (handleGenerateHeroImage forbiddenEnv doneState ''h1'')) =
     Some ''Check the API key in the settings''
   \<and> showSettings (settled (handleGenerateHeroImage forbiddenEnv doneState ''h1''))
   \<and> map_option (map hero_status \<circ> heroImages)
        (analysis (settled (handleGenerateHeroImage forbiddenEnv doneState ''h1''))) = Some [Failed]
   \<and> error (settled (handleGenerateHeroImage offlineEnv doneState ''h1'')) = Some ''Failed to fetch''
   \<and> \<not> showSettings (settled (handleGenerateHeroImage offlineEnv doneState ''h1''))
   \<and> error (settled (handleGenerateSection forbiddenEnv doneState ''s1'')) =
       Some ''Check the API key in the settings''
   \<and> showSettings (settled (handleGenerateSection forbiddenEnv doneState ''s1''))
   \<and> error (settled (handleGenerateSection offlineEnv doneState ''s1'')) = Some ''Failed to fetch''
   \<and> \<not> showSettings (settled (handleGenerateSection offlineEnv doneState ''s1''))
   \<and> map_option (map sec_status \<circ> sections)
        (analysis (settled (handleGenerateSection offlineEnv doneState ''s1''))) =
       Some [Failed, Completed]
   \<and> (\<exists>e'. generateProductImage forbiddenEnv ''QkJC'' ''image/webp'' ''mug'' = Inl e'
             \<and> isPermissionError e')
   \<and> isPermissionError (Error ''Permission Denied'')
   \<and> isPermissionError (Error ''got status: 403 Forbidden'')
   \<and> \<not> isPermissionError (Error ''Failed to fetch'')"
proof -
  note hero = image_failure_reporting [THEN conjunct1, THEN mp]
  note sec = image_failure_reporting [THEN conjunct2, THEN conjunct1, THEN mp]
  note upstream = image_failure_reporting [THEN conjunct2, THEN conjunct2, THEN conjunct1, THEN mp]
  note test = image_failure_reporting [THEN conjunct2, THEN conjunct2, THEN conjunct2]
  have hf: "analysis doneState = Some donePlan \<and> inputData doneState = Some demoInput
      \<and> find (\<lambda>h. hero_id h = ''h1'') (heroImages donePlan) = Some heroDone
      \<and> fst (requestImage forbiddenEnv demoInput (hero_referenceImageId heroDone)
               (hero_imagePrompt heroDone)) =
          Inl (Error ''Permission Denied (403). It seems your API Key supports the model but not 2K resolution or the payload was too large. (Optimization applied, please retry).'')"
    by (simp add: doneState_parts requestImage_forbiddenEnv)
  have ho: "analysis doneState = Some donePlan \<and> inputData doneState = Some demoInput
      \<and> find (\<lambda>h. hero_id h = ''h1'') (heroImages donePlan) = Some heroDone
      \<and> fst (requestImage offlineEnv demoInput (hero_referenceImageId heroDone)
               (hero_imagePrompt heroDone)) = Inl (Error ''Failed to fetch'')"
    by (simp add: doneState_parts requestImage_offlineEnv)
  have sf: "analysis doneState = Some donePlan \<and> inputData doneState = Some demoInput
      \<and> find (\<lambda>s. sec_id s = ''s1'') (sections donePlan) = Some secDone
      \<and> fst (requestImage forbiddenEnv demoInput (sec_referenceImageId secDone)
               (sec_imagePrompt secDone)) =
          Inl (Error ''Permission Denied (403). It seems your API Key supports the model but not 2K resolution or the payload was too large. (Optimization applied, please retry).'')"
    by (simp add: doneState_parts requestImage_forbiddenEnv)
  have so: "analysis doneState = Some donePlan \<and> inputData doneState = Some demoInput
      \<and> find (\<lambda>s. sec_id s = ''s1'') (sections donePlan) = Some secDone
      \<and> fst (requestImage offlineEnv demoInput (sec_referenceImageId secDone)
               (sec_imagePrompt secDone)) = Inl (Error ''Failed to fetch'')"
    by (simp add: doneState_parts requestImage_offlineEnv)
  have key: "apiKeyError forbiddenEnv en = ''Check the API key in the settings''"
    by (simp add: forbiddenEnv_def demoEnv_def)
  have 1: "error (settled (handleGenerateHeroImage forbiddenEnv doneState ''h1'')) =
             Some ''Check the API key in the settings''
           \<and> showSettings (settled (handleGenerateHeroImage forbiddenEnv doneState ''h1''))
           \<and> map_option (map hero_status \<circ> heroImages)
               (analysis (settled (handleGenerateHeroImage forbiddenEnv doneState ''h1''))) =
              Some [Failed]"
    using hero [OF hf] permission_message key by (simp add: doneState_parts donePlan_items)
  have 2: "error (settled (handleGenerateHeroImage offlineEnv doneState ''h1'')) =
             Some ''Failed to fetch''
           \<and> \<not> showSettings (settled (handleGenerateHeroImage offlineEnv doneState ''h1''))"
    using hero [OF ho] offline_message by (simp add: doneState_parts)
  have 3: "error (settled (handleGenerateSection forbiddenEnv doneState ''s1'')) =
             Some ''Check the API key in the settings''
           \<and> showSettings (settled (handleGenerateSection forbiddenEnv doneState ''s1''))"
    using sec [OF sf] permission_message key by (simp add: doneState_parts)
  have 4: "error (settled (handleGenerateSection offlineEnv doneState ''s1'')) =
             Some ''Failed to fetch''
           \<and> \<not> showSettings (settled (handleGenerateSection offlineEnv doneState ''s1''))
           \<and> map_option (map sec_status \<circ> sections)
                (analysis (settled (handleGenerateSection offlineEnv doneState ''s1''))) =
               Some [Failed, Completed]"
    using sec [OF so] offline_message by (simp add: doneState_parts donePlan_items)
  have up: "getAiClient forbiddenEnv = Inr (''key'', None)
      \<and> imageContent forbiddenEnv ''mug'' (fst (compressImage forbiddenEnv ''QkJC'' ''image/webp''))
           (snd (compressImage forbiddenEnv ''QkJC'' ''image/webp'')) =
          Inl (Error ''got status: 403 Forbidden'')
      \<and> str_includes (message (Error ''got status: 403 Forbidden'')) ''403''"
    by (simp add: getAiClient_forbiddenEnv imageContent_forbiddenEnv)
  have 5: "\<exists>e'. generateProductImage forbiddenEnv ''QkJC'' ''image/webp'' ''mug'' = Inl e'
             \<and> isPermissionError e'"
    by (rule upstream [OF up])
  have 6: "isPermissionError (Error ''Permission Denied'')"
    "isPermissionError (Error ''got status: 403 Forbidden'')"
    "\<not> isPermissionError (Error ''Failed to fetch'')"
    by (simp_all add: test)
  from 1 2 3 4 5 6 show ?thesis by blast
qed

lemma getAiClient_invalidKeyEnv: "getAiClient invalidKeyEnv = Inr (''key'', None)"
  by (simp add: getAiClient_def getApiKey_def js_or_def trim_key invalidKeyEnv_def demoEnv_def)

lemma invalid_key_message:
  "\<not> isPermissionError
       (Error ''got status: 400 Bad Request. API key not valid. Please pass a valid API key.'')"
  by (simp add: isPermissionError_def)

lemma generateProductImage_invalidKeyEnv:
  "generateProductImage invalidKeyEnv b m p =
     Inl (Error ''got status: 400 Bad Request. API key not valid. Please pass a valid API key.'')"
  by (simp add: generateProductImage_request [OF getAiClient_invalidKeyEnv])
     (simp add: invalidKeyEnv_def)

lemma requestImage_invalidKeyEnv:
  "fst (requestImage invalidKeyEnv demoInput rid p) =
     Inl (Error ''got status: 400 Bad Request. API key not valid. Please pass a valid API key.'')"
  by (simp add: requestImage_def generateProductImage_invalidKeyEnv findReferenceImage_def
        demoInput_def split: option.splits)

lemma getAiClient_quotaEnv: "getAiClient quotaEnv = Inr (''key'', None)"
  by (simp add: getAiClient_def getApiKey_def js_or_def trim_key quotaEnv_def demoEnv_def)

lemma imageContent_quotaEnv:
  "imageContent quotaEnv p d m =
     Inl (Error ''got status: 429 Too Many Requests. Quota exceeded for consumer project_number:184032.'')"
  by (simp add: quotaEnv_def)

lemma generateProductImage_quotaEnv:
  "generateProductImage quotaEnv b m p =
     Inl (Error ''Permission Denied (403). It seems your API Key supports the model but not 2K resolution or the payload was too large. (Optimization applied, please retry).'')"
  by (rule generateProductImage_upstream_403 [OF getAiClient_quotaEnv imageContent_quotaEnv]) simp

lemma requestImage_quotaEnv:
  "fst (requestImage quotaEnv demoInput rid p) =
     Inl (Error ''Permission Denied (403). It seems your API Key supports the model but not 2K resolution or the payload was too large. (Optimization applied, please retry).'')"
  by (simp add: requestImage_def generateProductImage_quotaEnv findReferenceImage_def
        demoInput_def split: option.splits)

text \<open>
  C3 fails as stated. An upstream answer that refuses the API key as not valid, with
  the status 400 and neither \<^verbatim>\<open>403\<close> nor \<^verbatim>\<open>Permission Denied\<close> in its text, is an
  authorization failure that is reported like any other: the error state is the
  message itself and the settings dialog stays closed. An upstream answer about an
  exhausted quota, with the status 429, whose text contains the digits 403 in a project
  number, is reported as a permission problem: the API-key message is set and the
  settings dialog is opened.
\<close>

theorem permission_flag_counterexample:
  "error (settled (handleGenerateHeroImage invalidKeyEnv doneState ''h1'')) =
     Some ''got status: 400 Bad Request. API key not valid. Please pass a valid API key.''
   \<and> \<not> showSettings (settled (handleGenerateHeroImage invalidKeyEnv doneState ''h1''))
   \<and> imageContent quotaEnv ''mug, front view'' ''SlBFRw=='' ''image/jpeg'' =
       Inl (Error ''got status: 429 Too Many Requests. Quota exceeded for consumer project_number:184032.'')
   \<and> error (settled (handleGenerateHeroImage quotaEnv doneState ''h1'')) =
       Some ''Check the API key in the settings''
   \<and> showSettings (settled (handleGenerateHeroImage quotaEnv doneState ''h1''))"
proof -
  have a: "settled (handleGenerateHeroImage invalidKeyEnv doneState ''h1'') =
             reportImageError invalidKeyEnv (language doneState)
               (Error ''got status: 400 Bad Request. API key not valid. Please pass a valid API key.'')
               (heroUpdater ''h1'' Failed None (heroUpdater ''h1'' Generating None doneState))"
    by (rule hero_failed(1) [OF doneState_parts(1) doneState_parts(2) doneState_parts(6)
          requestImage_invalidKeyEnv])
  have 1: "error (settled (handleGenerateHeroImage invalidKeyEnv doneState ''h1'')) =
             Some ''got status: 400 Bad Request. API key not valid. Please pass a valid API key.''
           \<and> \<not> showSettings (settled (handleGenerateHeroImage invalidKeyEnv doneState ''h1''))"
    unfolding a
    using reportImageError_flags(2) [OF invalid_key_message]
    by (simp add: heroUpdater_def doneState_parts)
  have b: "settled (handleGenerateHeroImage quotaEnv doneState ''h1'') =
             reportImageError quotaEnv (language doneState)
               (Error ''Permission Denied (403). It seems your API Key supports the model but not 2K resolution or the payload was too large. (Optimization applied, please retry).'')
               (heroUpdater ''h1'' Failed None (heroUpdater ''h1'' Generating None doneState))"
    by (rule hero_failed(1) [OF doneState_parts(1) doneState_parts(2) doneState_parts(6)
          requestImage_quotaEnv])
  have key: "apiKeyError quotaEnv en = ''Check the API key in the settings''"
    by (simp add: quotaEnv_def demoEnv_def)
  have 2: "error (settled (handleGenerateHeroImage quotaEnv doneState ''h1'')) =
             Some ''Check the API key in the settings''
           \<and> showSettings (settled (handleGenerateHeroImage quotaEnv doneState ''h1''))"
    unfolding b
    using reportImageError_flags(1) [OF permission_message] key
    by (simp add: doneState_parts)
  from 1 imageContent_quotaEnv 2 show ?thesis by blast
qed

subsection \<open>Polling the video provider\<close>

lemma polls_step: "i < n \<Longrightarrow> polls i n = Sleep 5000 # GetTask i # polls (Suc i) n"
  by (simp add: polls_def upt_conv_Cons)

lemma polls_empty [simp]: "polls i i = []"
  by (simp add: polls_def)

lemma pollTask_events:
  "\<exists>n. i \<le> n \<and> n \<le> max i maxAttempts \<and> snd (pollTask task i) = polls i n"
proof (induction task i rule: pollTask.induct)
  case (1 task i)
  show ?case
  proof (cases "i < maxAttempts")
    case False
    then have "snd (pollTask task i) = polls i i"
      by (subst pollTask.simps) simp
    then show ?thesis by (intro exI [of _ i]) simp
  next
    case lt: True
    show ?thesis
    proof (cases "pollStep (task i)")
      case (Some r)
      with lt have "snd (pollTask task i) = polls i (Suc i)"
        by (subst pollTask.simps) (simp add: polls_step)
      with lt show ?thesis by (intro exI [of _ "Suc i"]) simp
    next
      case None
      from "1.IH" [OF lt None] obtain n where n: "Suc i \<le> n" "n \<le> max (Suc i) maxAttempts"
        and ev: "snd (pollTask task (Suc i)) = polls (Suc i) n" by blast
      from lt None ev n have "snd (pollTask task i) = polls i n"
        by (subst pollTask.simps) (auto simp: polls_step split: prod.splits)
      with n lt show ?thesis by (intro exI [of _ n]) simp
    qed
  qed
qed

lemma pollTask_times_out:
  assumes "\<forall>j. i \<le> j \<and> j < maxAttempts \<longrightarrow> pollStep (task j) = None"
  shows "pollTask task i = (Inl (Error ''Video generation timed out''), polls i (max i maxAttempts))"
  using assms
proof (induction task i rule: pollTask.induct)
  case (1 task i)
  show ?case
  proof (cases "i < maxAttempts")
    case False
    then show ?thesis by (subst pollTask.simps) (simp add: max_def)
  next
    case lt: True
    with "1.prems" have none: "pollStep (task i) = None" by simp
    have "pollTask task (Suc i) =
            (Inl (Error ''Video generation timed out''), polls (Suc i) (max (Suc i) maxAttempts))"
      using "1.IH" [OF lt none] "1.prems" by simp
    with lt none show ?thesis
      by (subst pollTask.simps) (simp add: polls_step max_def)
  qed
qed

lemma pollTask_stops:
  assumes "n < maxAttempts" "i \<le> n"
    and "\<forall>j. i \<le> j \<and> j < n \<longrightarrow> pollStep (task j) = None"
    and "pollStep (task n) = Some r"
  shows "pollTask task i = (r, polls i (Suc n))"
  using assms
proof (induction task i rule: pollTask.induct)
  case (1 task i)
  from "1.prems" have lt: "i < maxAttempts" by simp
  show ?case
  proof (cases "i = n")
    case True
    with lt "1.prems"(4) show ?thesis
      by (subst pollTask.simps) (simp add: polls_step)
  next
    case False
    with "1.prems" have less: "i < n" and none: "pollStep (task i) = None" by simp_all
    have "pollTask task (Suc i) = (r, polls (Suc i) (Suc n))"
      using "1.IH" [OF lt none] "1.prems" less by simp
    with lt none less show ?thesis
      by (subst pollTask.simps) (simp add: polls_step)
  qed
qed

lemma pollStep_ends:
  "pollStep (FetchRejects m) = Some (Inl (Error m))"
  "pollStep (JsonRejects m) = Some (Inl (Error m))"
  "task_status d = ''failed'' \<Longrightarrow>
     pollStep (Body d) = Some (Inl (Error (''Grok Task Failed: '' @ templateText (task_error d))))"
  "task_status d = ''completed'' \<Longrightarrow> video_url d = Some u \<Longrightarrow> u \<noteq> [] \<Longrightarrow>
     pollStep (Body d) = Some (Inr u)"
  by (simp_all add: pollStep_def or_default_def)

lemma pollStep_running:
  assumes "(\<exists>s. r = NotOk s)
           \<or> (\<exists>d. r = Body d \<and> task_status d \<noteq> ''failed''
                 \<and> \<not> (task_status d = ''completed'' \<and> truthy (video_url d)))"
  shows "pollStep r = None"
  using assms by (auto simp: pollStep_def)

lemma generateGrokVideo_events:
  "snd (generateGrokVideo env imageBytes prompt apiKey) = []
   \<or> (\<exists>n\<le>maxAttempts. snd (generateGrokVideo env imageBytes prompt apiKey) = PostGenerate # polls 0 n)"
proof -
  have p: "\<And>task. \<exists>n\<le>maxAttempts. snd (pollTask task 0) = polls 0 n"
    using pollTask_events [of 0] by (simp add: max_def) 
  have z: "\<exists>n\<le>maxAttempts. [PostGenerate] = PostGenerate # polls 0 n"
    by (intro exI [of _ 0]) simp
  show ?thesis
  proof (cases apiKey)
    case None
    then show ?thesis by (simp add: generateGrokVideo_def)
  next
    case (Some k)
    show ?thesis
    proof (cases "k = []")
      case True
      with Some show ?thesis by (simp add: generateGrokVideo_def)
    next
      case False
      let ?r = "grokGenerate env k (cleanBase64 imageBytes)
                  (if prompt = [] then ''slow motion cinematic shot'' else prompt)"
      show ?thesis
      proof (cases ?r)
        case (Body g)
        show ?thesis
        proof (cases "\<not> success g \<or> \<not> truthy (task_id g)")
          case True
          with Some False Body z show ?thesis by (simp add: generateGrokVideo_def)
        next
          case ok: False
          from p [of "grokTask env k (or_default (task_id g) [])"]
          obtain n where "n \<le> maxAttempts"
            "snd (pollTask (grokTask env k (or_default (task_id g) [])) 0) = polls 0 n"
            by blast
          with Some False Body ok show ?thesis
            by (auto simp: generateGrokVideo_def split: prod.splits)
        qed
      qed (use Some False z in \<open>simp_all add: generateGrokVideo_def\<close>)
    qed
  qed
qed

lemma generateGrokVideo_polling:
  assumes "k \<noteq> []"
    and "grokGenerate env k (cleanBase64 imageBytes)
           (if prompt = [] then ''slow motion cinematic shot'' else prompt) = Body g"
    and "success g" "task_id g = Some t" "t \<noteq> []"
  shows "generateGrokVideo env imageBytes prompt (Some k) =
           (fst (pollTask (grokTask env k t) 0), PostGenerate # snd (pollTask (grokTask env k t) 0))"
  using assms by (simp add: generateGrokVideo_def or_default_def split: prod.splits)

text \<open>
  C7, as the code has it. A call of \<open>generateGrokVideo\<close> issues either nothing, or the job
  submission followed by at most 60 status requests, each after a pause of 5000 ms. When
  the job was submitted and each of the 60 status requests is answered (with a response
  that is not ok, or with a body whose state is neither failed nor completed with a video
  URL), the call fails with the time-out error after exactly 60 requests. When the
  requests before the one numbered \<open>n\<close> (below 60) are so answered and that one is
  rejected, or its body does not parse, the call ends there with the error of the
  request; when its body reports the task failed, or completed with a video URL, the call
  ends there with the provider's error, or with the URL.
\<close>

lemma generateProductVideo_stops:
  assumes "videoProvider (settings env) = Some grok" "grokApiKey (settings env) = Some k"
    and "k \<noteq> []"
    and "grokGenerate env k (cleanBase64 imageBytes)
           (if prompt = [] then ''slow motion cinematic shot'' else prompt) = Body g"
    and "success g" "task_id g = Some t" "t \<noteq> []" "n < 60"
    and "\<forall>i<n. (\<exists>s. grokTask env k t i = NotOk s)
            \<or> (\<exists>d. grokTask env k t i = Body d \<and> task_status d \<noteq> ''failed''
                  \<and> \<not> (task_status d = ''completed'' \<and> truthy (video_url d)))"
    and "pollStep (grokTask env k t n) = Some r"
  shows "generateProductVideo env imageBytes mime prompt = Some r
         \<and> snd (generateGrokVideo env imageBytes prompt (Some k)) =
             PostGenerate # concat (map (\<lambda>j. [Sleep 5000, GetTask j]) [0..<Suc n])"
proof -
  have none: "\<forall>j. 0 \<le> j \<and> j < n \<longrightarrow> pollStep (grokTask env k t j) = None"
    using assms(9) pollStep_running by simp
  have n: "n < maxAttempts" using assms(8) by (simp add: maxAttempts_def)
  have p: "pollTask (grokTask env k t) 0 = (r, polls 0 (Suc n))"
    by (rule pollTask_stops [OF n _ none assms(10)]) simp
  have g: "generateGrokVideo env imageBytes prompt (Some k) = (r, PostGenerate # polls 0 (Suc n))"
    using generateGrokVideo_polling [OF assms(3,4,5,6,7)] p by simp
  show ?thesis
    using assms(1,2) g by (simp add: generateProductVideo_def polls_def)
qed

theorem grok_polling_bounded:
  "(snd (generateGrokVideo env imageBytes prompt apiKey) = []
     \<or> (\<exists>n\<le>60. snd (generateGrokVideo env imageBytes prompt apiKey) =
           PostGenerate # concat (map (\<lambda>j. [Sleep 5000, GetTask j]) [0..<n])))
   \<and> (videoProvider (settings env) = Some grok \<and> grokApiKey (settings env) = Some k \<and> k \<noteq> []
      \<and> grokGenerate env k (cleanBase64 imageBytes)
           (if prompt = [] then ''slow motion cinematic shot'' else prompt) = Body g
      \<and> success g \<and> task_id g = Some t \<and> t \<noteq> []
      \<and> (\<forall>i<60. (\<exists>s. grokTask env k t i = NotOk s)
                 \<or> (\<exists>d. grokTask env k t i = Body d \<and> task_status d \<noteq> ''failed''
                       \<and> \<not> (task_status d = ''completed'' \<and> truthy (video_url d))))
    \<longrightarrow> generateProductVideo env imageBytes mime prompt =
          Some (Inl (Error ''Video generation timed out''))
        \<and> snd (generateGrokVideo env imageBytes prompt (Some k)) =
            PostGenerate # concat (map (\<lambda>j. [Sleep 5000, GetTask j]) [0..<60]))
   \<and> (videoProvider (settings env) = Some grok \<and> grokApiKey (settings env) = Some k \<and> k \<noteq> []
      \<and> grokGenerate env k (cleanBase64 imageBytes)
           (if prompt = [] then ''slow motion cinematic shot'' else prompt) = Body g
      \<and> success g \<and> task_id g = Some t \<and> t \<noteq> []
      \<and> n < 60
      \<and> (\<forall>i<n. (\<exists>s. grokTask env k t i = NotOk s)
                \<or> (\<exists>d. grokTask env k t i = Body d \<and> task_status d \<noteq> ''failed''
                      \<and> \<not> (task_status d = ''completed'' \<and> truthy (video_url d))))
    \<longrightarrow> (grokTask env k t n = FetchRejects m \<or> grokTask env k t n = JsonRejects m \<longrightarrow>
            generateProductVideo env imageBytes mime prompt = Some (Inl (Error m))
            \<and> snd (generateGrokVideo env imageBytes prompt (Some k)) =
                PostGenerate # concat (map (\<lambda>j. [Sleep 5000, GetTask j]) [0..<Suc n]))
        \<and> (\<forall>d. grokTask env k t n = Body d \<and> task_status d = ''failed'' \<longrightarrow>
              generateProductVideo env imageBytes mime prompt =
                Some (Inl (Error (''Grok Task Failed: '' @ templateText (task_error d))))
              \<and> snd (generateGrokVideo env imageBytes prompt (Some k)) =
                  PostGenerate # concat (map (\<lambda>j. [Sleep 5000, GetTask j]) [0..<Suc n]))
        \<and> (\<forall>d u. grokTask env k t n = Body d \<and> task_status d = ''completed''
                 \<and> video_url d = Some u \<and> u \<noteq> [] \<longrightarrow>
              generateProductVideo env imageBytes mime prompt = Some (Inr u)
              \<and> snd (generateGrokVideo env imageBytes prompt (Some k)) =
                  PostGenerate # concat (map (\<lambda>j. [Sleep 5000, GetTask j]) [0..<Suc n])))"
proof (intro conjI)
  show "(videoProvider (settings env) = Some grok \<and> grokApiKey (settings env) = Some k \<and> k \<noteq> []
      \<and> grokGenerate env k (cleanBase64 imageBytes)
           (if prompt = [] then ''slow motion cinematic shot'' else prompt) = Body g
      \<and> success g \<and> task_id g = Some t \<and> t \<noteq> []
      \<and> n < 60
      \<and> (\<forall>i<n. (\<exists>s. grokTask env k t i = NotOk s)
                \<or> (\<exists>d. grokTask env k t i = Body d \<and> task_status d \<noteq> ''failed''
                      \<and> \<not> (task_status d = ''completed'' \<and> truthy (video_url d))))
    \<longrightarrow> (grokTask env k t n = FetchRejects m \<or> grokTask env k t n = JsonRejects m \<longrightarrow>
            generateProductVideo env imageBytes mime prompt = Some (Inl (Error m))
            \<and> snd (generateGrokVideo env imageBytes prompt (Some k)) =
                PostGenerate # concat (map (\<lambda>j. [Sleep 5000, GetTask j]) [0..<Suc n]))
        \<and> (\<forall>d. grokTask env k t n = Body d \<and> task_status d = ''failed'' \<longrightarrow>
              generateProductVideo env imageBytes mime prompt =
                Some (Inl (Error (''Grok Task Failed: '' @ templateText (task_error d))))
              \<and> snd (generateGrokVideo env imageBytes prompt (Some k)) =
                  PostGenerate # concat (map (\<lambda>j. [Sleep 5000, GetTask j]) [0..<Suc n]))
        \<and> (\<forall>d u. grokTask env k t n = Body d \<and> task_status d = ''completed''
                 \<and> video_url d = Some u \<and> u \<noteq> [] \<longrightarrow>
              generateProductVideo env imageBytes mime prompt = Some (Inr u)
              \<and> snd (generateGrokVideo env imageBytes prompt (Some k)) =
                  PostGenerate # concat (map (\<lambda>j. [Sleep 5000, GetTask j]) [0..<Suc n])))"
  proof (intro impI, elim conjE)
    assume a: "videoProvider (settings env) = Some grok" "grokApiKey (settings env) = Some k"
      "k \<noteq> []"
      "grokGenerate env k (cleanBase64 imageBytes)
         (if prompt = [] then ''slow motion cinematic shot'' else prompt) = Body g"
      "success g" "task_id g = Some t" "t \<noteq> []" "n < 60"
      and running: "\<forall>i<n. (\<exists>s. grokTask env k t i = NotOk s)
                \<or> (\<exists>d. grokTask env k t i = Body d \<and> task_status d \<noteq> ''failed''
                      \<and> \<not> (task_status d = ''completed'' \<and> truthy (video_url d)))"
    note stops = generateProductVideo_stops [OF a running]
    have rej: "grokTask env k t n = FetchRejects m \<or> grokTask env k t n = JsonRejects m \<longrightarrow>
            generateProductVideo env imageBytes mime prompt = Some (Inl (Error m))
            \<and> snd (generateGrokVideo env imageBytes prompt (Some k)) =
                PostGenerate # concat (map (\<lambda>j. [Sleep 5000, GetTask j]) [0..<Suc n])"
    proof
      assume "grokTask env k t n = FetchRejects m \<or> grokTask env k t n = JsonRejects m"
      then have "pollStep (grokTask env k t n) = Some (Inl (Error m))"
        by (auto simp: pollStep_ends)
      then show "generateProductVideo env imageBytes mime prompt = Some (Inl (Error m))
            \<and> snd (generateGrokVideo env imageBytes prompt (Some k)) =
                PostGenerate # concat (map (\<lambda>j. [Sleep 5000, GetTask j]) [0..<Suc n])"
        by (rule stops)
    qed
    have failed: "\<forall>d. grokTask env k t n = Body d \<and> task_status d = ''failed'' \<longrightarrow>
              generateProductVideo env imageBytes mime prompt =
                Some (Inl (Error (''Grok Task Failed: '' @ templateText (task_error d))))
              \<and> snd (generateGrokVideo env imageBytes prompt (Some k)) =
                  PostGenerate # concat (map (\<lambda>j. [Sleep 5000, GetTask j]) [0..<Suc n])"
    proof (intro allI impI, elim conjE)
      fix d assume "grokTask env k t n = Body d" "task_status d = ''failed''"
      then have "pollStep (grokTask env k t n) =
                   Some (Inl (Error (''Grok Task Failed: '' @ templateText (task_error d))))"
        by (simp add: pollStep_ends)
      then show "generateProductVideo env imageBytes mime prompt =
                Some (Inl (Error (''Grok Task Failed: '' @ templateText (task_error d))))
              \<and> snd (generateGrokVideo env imageBytes prompt (Some k)) =
                  PostGenerate # concat (map (\<lambda>j. [Sleep 5000, GetTask j]) [0..<Suc n])"
        by (rule stops)
    qed
    have completed: "\<forall>d u. grokTask env k t n = Body d \<and> task_status d = ''completed''
                 \<and> video_url d = Some u \<and> u \<noteq> [] \<longrightarrow>
              generateProductVideo env imageBytes mime prompt = Some (Inr u)
              \<and> snd (generateGrokVideo env imageBytes prompt (Some k)) =
                  PostGenerate # concat (map (\<lambda>j. [Sleep 5000, GetTask j]) [0..<Suc n])"
    proof (intro allI impI, elim conjE)
      fix d u assume "grokTask env k t n = Body d" "task_status d = ''completed''"
        "video_url d = Some u" "u \<noteq> []"
      then have "pollStep (grokTask env k t n) = Some (Inr u)"
        by (simp add: pollStep_ends)
      then show "generateProductVideo env imageBytes mime prompt = Some (Inr u)
              \<and> snd (generateGrokVideo env imageBytes prompt (Some k)) =
                  PostGenerate # concat (map (\<lambda>j. [Sleep 5000, GetTask j]) [0..<Suc n])"
        by (rule stops)
    qed
    from rej failed completed
    show "(grokTask env k t n = FetchRejects m \<or> grokTask env k t n = JsonRejects m \<longrightarrow>
            generateProductVideo env imageBytes mime prompt = Some (Inl (Error m))
            \<and> snd (generateGrokVideo env imageBytes prompt (Some k)) =
                PostGenerate # concat (map (\<lambda>j. [Sleep 5000, GetTask j]) [0..<Suc n]))
        \<and> (\<forall>d. grokTask env k t n = Body d \<and> task_status d = ''failed'' \<longrightarrow>
              generateProductVideo env imageBytes mime prompt =
                Some (Inl (Error (''Grok Task Failed: '' @ templateText (task_error d))))
              \<and> snd (generateGrokVideo env imageBytes prompt (Some k)) =
                  PostGenerate # concat (map (\<lambda>j. [Sleep 5000, GetTask j]) [0..<Suc n]))
        \<and> (\<forall>d u. grokTask env k t n = Body d \<and> task_status d = ''completed''
                 \<and> video_url d = Some u \<and> u \<noteq> [] \<longrightarrow>
              generateProductVideo env imageBytes mime prompt = Some (Inr u)
              \<and> snd (generateGrokVideo env imageBytes prompt (Some k)) =
                  PostGenerate # concat (map (\<lambda>j. [Sleep 5000, GetTask j]) [0..<Suc n]))"
      by (intro conjI)
  qed
next
  show "snd (generateGrokVideo env imageBytes prompt apiKey) = []
     \<or> (\<exists>n\<le>60. snd (generateGrokVideo env imageBytes prompt apiKey) =
           PostGenerate # concat (map (\<lambda>j. [Sleep 5000, GetTask j]) [0..<n]))"
    using generateGrokVideo_events [of env imageBytes prompt apiKey]
    by (simp add: polls_def maxAttempts_def)
next
  show "videoProvider (settings env) = Some grok \<and> grokApiKey (settings env) = Some k \<and> k \<noteq> []
      \<and> grokGenerate env k (cleanBase64 imageBytes)
           (if prompt = [] then ''slow motion cinematic shot'' else prompt) = Body g
      \<and> success g \<and> task_id g = Some t \<and> t \<noteq> []
      \<and> (\<forall>i<60. (\<exists>s. grokTask env k t i = NotOk s)
                 \<or> (\<exists>d. grokTask env k t i = Body d \<and> task_status d \<noteq> ''failed''
                       \<and> \<not> (task_status d = ''completed'' \<and> truthy (video_url d))))
    \<longrightarrow> generateProductVideo env imageBytes mime prompt =
          Some (Inl (Error ''Video generation timed out''))
        \<and> snd (generateGrokVideo env imageBytes prompt (Some k)) =
            PostGenerate # concat (map (\<lambda>j. [Sleep 5000, GetTask j]) [0..<60])"
  proof (intro impI, elim conjE, intro conjI)
  assume a: "videoProvider (settings env) = Some grok" "grokApiKey (settings env) = Some k"
    "k \<noteq> []"
    "grokGenerate env k (cleanBase64 imageBytes)
       (if prompt = [] then ''slow motion cinematic shot'' else prompt) = Body g"
    "success g" "task_id g = Some t" "t \<noteq> []"
    and running: "\<forall>i<60. (\<exists>s. grokTask env k t i = NotOk s)
                 \<or> (\<exists>d. grokTask env k t i = Body d \<and> task_status d \<noteq> ''failed''
                       \<and> \<not> (task_status d = ''completed'' \<and> truthy (video_url d)))"
  have "\<forall>j. 0 \<le> j \<and> j < maxAttempts \<longrightarrow> pollStep (grokTask env k t j) = None"
    using running pollStep_running by (simp add: maxAttempts_def)
  then have p: "pollTask (grokTask env k t) 0 =
                  (Inl (Error ''Video generation timed out''), polls 0 (max 0 maxAttempts))"
    by (rule pollTask_times_out)
  have g: "generateGrokVideo env imageBytes prompt (Some k) =
             (Inl (Error ''Video generation timed out''), PostGenerate # polls 0 maxAttempts)"
    using generateGrokVideo_polling [OF a(3,4,5,6,7)] p by simp
  show "generateProductVideo env imageBytes mime prompt =
          Some (Inl (Error ''Video generation timed out''))"
    using a(1,2) g by (simp add: generateProductVideo_def)
  show "snd (generateGrokVideo env imageBytes prompt (Some k)) =
            PostGenerate # concat (map (\<lambda>j. [Sleep 5000, GetTask j]) [0..<60])"
    using g by (simp add: polls_def maxAttempts_def)
  qed
qed

theorem grok_polling_bounded_witness:
  "generateProductVideo demoEnv ''data:image/png;base64,T0xE'' ''image/png'' ''pan'' =
     Some (Inl (Error ''Video generation timed out''))
   \<and> length (snd (generateGrokVideo demoEnv ''data:image/png;base64,T0xE'' ''pan'' (Some ''gk'')))
       = 121
   \<and> generateProductVideo garbledEnv ''data:image/png;base64,T0xE'' ''image/png'' ''pan'' =
       Some (Inl (Error ''Unexpected token < in JSON at position 0''))
   \<and> snd (generateGrokVideo garbledEnv ''data:image/png;base64,T0xE'' ''pan'' (Some ''gk'')) =
       [PostGenerate, Sleep 5000, GetTask 0, Sleep 5000, GetTask 1, Sleep 5000, GetTask 2]"
proof -
  let ?g = "\<lparr>success = True, task_id = Some ''t1'', gen_error = None\<rparr>"
  have a: "videoProvider (settings demoEnv) = Some grok \<and> grokApiKey (settings demoEnv) = Some ''gk''
      \<and> ''gk'' \<noteq> []
      \<and> grokGenerate demoEnv ''gk'' (cleanBase64 ''data:image/png;base64,T0xE'')
           (if ''pan'' = [] then ''slow motion cinematic shot'' else ''pan'') = Body ?g
      \<and> success ?g \<and> task_id ?g = Some ''t1'' \<and> ''t1'' \<noteq> []
      \<and> (\<forall>i<60. (\<exists>s. grokTask demoEnv ''gk'' ''t1'' i = NotOk s)
                 \<or> (\<exists>d. grokTask demoEnv ''gk'' ''t1'' i = Body d \<and> task_status d \<noteq> ''failed''
                       \<and> \<not> (task_status d = ''completed'' \<and> truthy (video_url d))))"
    by (simp add: demoEnv_def)
  have l: "length (concat (map (\<lambda>j. [Sleep 5000, GetTask j]) [0..<60])) = 120"
    by (simp add: length_concat comp_def sum_list_triv)
  have 1: "generateProductVideo demoEnv ''data:image/png;base64,T0xE'' ''image/png'' ''pan'' =
             Some (Inl (Error ''Video generation timed out''))
           \<and> length (snd (generateGrokVideo demoEnv ''data:image/png;base64,T0xE'' ''pan''
                (Some ''gk''))) = 121"
    using grok_polling_bounded [THEN conjunct2, THEN conjunct1, THEN mp, OF a, of "''image/png''"] l
    by simp
  have b: "videoProvider (settings garbledEnv) = Some grok
      \<and> grokApiKey (settings garbledEnv) = Some ''gk'' \<and> ''gk'' \<noteq> []
      \<and> grokGenerate garbledEnv ''gk'' (cleanBase64 ''data:image/png;base64,T0xE'')
           (if ''pan'' = [] then ''slow motion cinematic shot'' else ''pan'') = Body ?g
      \<and> success ?g \<and> task_id ?g = Some ''t1'' \<and> ''t1'' \<noteq> []
      \<and> (2::nat) < 60
      \<and> (\<forall>i<2. (\<exists>s. grokTask garbledEnv ''gk'' ''t1'' i = NotOk s)
                \<or> (\<exists>d. grokTask garbledEnv ''gk'' ''t1'' i = Body d \<and> task_status d \<noteq> ''failed''
                      \<and> \<not> (task_status d = ''completed'' \<and> truthy (video_url d))))"
    by (simp add: garbledEnv_def demoEnv_def)
  have r: "grokTask garbledEnv ''gk'' ''t1'' 2 = FetchRejects ''Unexpected token < in JSON at position 0''
           \<or> grokTask garbledEnv ''gk'' ''t1'' 2 =
               JsonRejects ''Unexpected token < in JSON at position 0''"
    by (simp add: garbledEnv_def)
  have u: "[0..<3] = [0, 1, 2::nat]" by (simp add: upt_rec)
  have 2: "generateProductVideo garbledEnv ''data:image/png;base64,T0xE'' ''image/png'' ''pan'' =
             Some (Inl (Error ''Unexpected token < in JSON at position 0''))
           \<and> snd (generateGrokVideo garbledEnv ''data:image/png;base64,T0xE'' ''pan''
                (Some ''gk'')) =
               [PostGenerate, Sleep 5000, GetTask 0, Sleep 5000, GetTask 1, Sleep 5000, GetTask 2]"
    using grok_polling_bounded [THEN conjunct2, THEN conjunct2, THEN mp, OF b, THEN conjunct1,
            THEN mp, OF r, of "''image/png''"]
    by (simp add: u)
  from 1 2 show ?thesis by blast
qed

lemma pollStep_rejects: "pollStep (FetchRejects m) = Some (Inl (Error m))"
  by (simp add: pollStep_def)

lemma generateGrokVideo_droppedEnv:
  "generateGrokVideo droppedEnv ''data:image/png;base64,T0xE'' ''pan'' (Some ''gk'') =
     (Inl (Error ''Failed to fetch''), [PostGenerate, Sleep 5000, GetTask 0])"
proof -
  have t: "grokTask droppedEnv ''gk'' ''t1'' = (\<lambda>i. FetchRejects ''Failed to fetch'')"
    by (simp add: droppedEnv_def)
  have p: "pollTask (grokTask droppedEnv ''gk'' ''t1'') 0 =
             (Inl (Error ''Failed to fetch''), [Sleep 5000, GetTask 0])"
    by (rule pollTask_first) (simp add: t pollStep_rejects)
  have g: "grokGenerate droppedEnv ''gk'' (cleanBase64 ''data:image/png;base64,T0xE'')
             (if ''pan'' = [] then ''slow motion cinematic shot'' else ''pan'') =
           Body \<lparr>success = True, task_id = Some ''t1'', gen_error = None\<rparr>"
    by (simp add: droppedEnv_def demoEnv_def)
  show ?thesis
    using generateGrokVideo_polling [OF _ g, of "''t1''"] p by simp
qed

text \<open>
  C7 fails as stated: when the first status request is rejected (the network is down), no
  terminal provider state was reached, and the call fails at once with the error of the
  request, not with the time-out error.
\<close>

theorem grok_poll_rejection_counterexample:
  "generateProductVideo droppedEnv ''data:image/png;base64,T0xE'' ''image/png'' ''pan'' =
     Some (Inl (Error ''Failed to fetch''))
   \<and> snd (generateGrokVideo droppedEnv ''data:image/png;base64,T0xE'' ''pan'' (Some ''gk'')) =
       [PostGenerate, Sleep 5000, GetTask 0]
   \<and> grokTask droppedEnv ''gk'' ''t1'' 0 = FetchRejects ''Failed to fetch''
   \<and> Error ''Failed to fetch'' \<noteq> Error ''Video generation timed out''"
proof -
  have s: "videoProvider (settings droppedEnv) = Some grok"
    "grokApiKey (settings droppedEnv) = Some ''gk''"
    by (simp_all add: droppedEnv_def demoEnv_def)
  have t: "grokTask droppedEnv ''gk'' ''t1'' 0 = FetchRejects ''Failed to fetch''"
    by (simp add: droppedEnv_def)
  show ?thesis
    using s t generateGrokVideo_droppedEnv by (simp add: generateProductVideo_def)
qed

subsection \<open>Failure of video generation\<close>

lemma setVideoStatus_twice:
  assumes "analysis st = Some a"
  shows "analysis (setVideoStatus hid s (setVideoStatus hid s0 st)) =
           Some (a\<lparr>heroImages := map (\<lambda>h. if hero_id h = hid then h\<lparr>videoStatus := Some s\<rparr> else h)
                                      (heroImages a)\<rparr>)"
  using assms by (simp add: setVideoStatus_def comp_def if_distrib [of hero_id] cong: if_cong)

lemma handleGenerateHeroVideo_failed:
  assumes "analysis st = Some a"
    and "find (\<lambda>h. hero_id h = heroId) (heroImages a) = Some hero"
    and "truthy (hero_generatedImageUrl hero)"
    and "generateProductVideo env (or_default (hero_generatedImageUrl hero) []) ''image/png''
           (or_default (videoPrompt hero) ''Slow cinematic pan'') = Some (Inl e)"
  shows "settled (handleGenerateHeroVideo env st heroId) =
           setVideoStatus heroId Failed
             ((setVideoStatus heroId Generating st)
                \<lparr>error := Some (''Video Generation Failed: '' @ message e),
                 showSettings := (if isPermissionError e then True else showSettings st)\<rparr>)"
proof -
  have sh: "showSettings (setVideoStatus heroId Generating st) = showSettings st"
    by (simp add: setVideoStatus_def)
  show ?thesis
    unfolding handleGenerateHeroVideo_def Let_def
    using assms sh by simp
qed

lemma analysis_setVideoStatus:
  "analysis (setVideoStatus hid s st) =
     map_option (\<lambda>prev. prev\<lparr>heroImages :=
        map (\<lambda>h. if hero_id h = hid then h\<lparr>videoStatus := Some s\<rparr> else h) (heroImages prev)\<rparr>)
       (analysis st)"
  by (simp add: setVideoStatus_def)

lemma videoStatus_keeps_url:
  "map generatedVideoUrl (map (\<lambda>h. if hero_id h = hid then h\<lparr>videoStatus := v\<rparr> else h) hs) =
   map generatedVideoUrl hs"
  by (induction hs) simp_all

lemma videoStatus_keeps_rest:
  "map (\<lambda>h. h\<lparr>videoStatus := None\<rparr>)
     (map (\<lambda>h. if hero_id h = hid then h\<lparr>videoStatus := v\<rparr> else h) hs) =
   map (\<lambda>h. h\<lparr>videoStatus := None\<rparr>) hs"
  by (induction hs) simp_all

lemma videoStatus_sets:
  assumes "h \<in> set (map (\<lambda>x. if hero_id x = hid then x\<lparr>videoStatus := v\<rparr> else x) hs)"
    and "hero_id h = hid"
  shows "videoStatus h = v"
proof -
  from assms(1) have "h \<in> (\<lambda>x. if hero_id x = hid then x\<lparr>videoStatus := v\<rparr> else x) ` set hs"
    by (simp only: set_map)
  then obtain x where x: "h = (if hero_id x = hid then x\<lparr>videoStatus := v\<rparr> else x)"
    by (rule imageE)
  show ?thesis
  proof (cases "hero_id x = hid")
    case True
    with x show ?thesis by simp
  next
    case False
    with x assms(2) show ?thesis by simp
  qed
qed

lemma heroImages_update: "heroImages (a\<lparr>heroImages := hs\<rparr>) = hs"
  by simp

lemma video_failed_analysis:
  assumes "analysis st = Some a"
    and "find (\<lambda>h. hero_id h = heroId) (heroImages a) = Some hero"
    and "truthy (hero_generatedImageUrl hero)"
    and "generateProductVideo env (or_default (hero_generatedImageUrl hero) []) ''image/png''
           (or_default (videoPrompt hero) ''Slow cinematic pan'') = Some (Inl e)"
  shows "analysis (settled (handleGenerateHeroVideo env st heroId)) =
           Some (a\<lparr>heroImages :=
                     map (\<lambda>h. if hero_id h = heroId then h\<lparr>videoStatus := Some Failed\<rparr> else h)
                         (heroImages a)\<rparr>)"
proof -
  have "analysis (settled (handleGenerateHeroVideo env st heroId)) =
          analysis (setVideoStatus heroId Failed (setVideoStatus heroId Generating st))"
    unfolding handleGenerateHeroVideo_failed [OF assms]
    by (simp add: analysis_setVideoStatus)
  also have "\<dots> = Some (a\<lparr>heroImages :=
                     map (\<lambda>h. if hero_id h = heroId then h\<lparr>videoStatus := Some Failed\<rparr> else h)
                         (heroImages a)\<rparr>)"
    by (rule setVideoStatus_twice [OF assms(1)])
  finally show ?thesis .
qed

text \<open>
  C10. When the video request of a hero image fails, the plan that results is the plan
  from before the request with the video status of the hero images of that identifier set
  to failed: their \<^verbatim>\<open>generatedVideoUrl\<close> and every other field, all other hero images and all
  sections are unchanged.
\<close>

theorem video_failure_frame:
  assumes "analysis st = Some a"
    and "find (\<lambda>h. hero_id h = heroId) (heroImages a) = Some hero"
    and "truthy (hero_generatedImageUrl hero)"
    and "generateProductVideo env (or_default (hero_generatedImageUrl hero) []) ''image/png''
           (or_default (videoPrompt hero) ''Slow cinematic pan'') = Some (Inl e)"
  shows "\<exists>a'. analysis (settled (handleGenerateHeroVideo env st heroId)) = Some a'
           \<and> a' = a\<lparr>heroImages :=
                     map (\<lambda>h. if hero_id h = heroId then h\<lparr>videoStatus := Some Failed\<rparr> else h)
                         (heroImages a)\<rparr>
           \<and> sections a' = sections a
           \<and> map generatedVideoUrl (heroImages a') = map generatedVideoUrl (heroImages a)
           \<and> map (\<lambda>h. h\<lparr>videoStatus := None\<rparr>) (heroImages a') =
               map (\<lambda>h. h\<lparr>videoStatus := None\<rparr>) (heroImages a)
           \<and> (\<forall>h\<in>set (heroImages a'). hero_id h = heroId \<longrightarrow> videoStatus h = Some Failed)"
proof (intro exI conjI ballI impI)
  let ?f = "\<lambda>h. if hero_id h = heroId then h\<lparr>videoStatus := Some Failed\<rparr> else h"
  let ?a' = "a\<lparr>heroImages := map ?f (heroImages a)\<rparr>"
  show "analysis (settled (handleGenerateHeroVideo env st heroId)) = Some ?a'"
    by (rule video_failed_analysis [OF assms])
  show "?a' = a\<lparr>heroImages := map ?f (heroImages a)\<rparr>" ..
  show "sections ?a' = sections a" by simp
  show "map generatedVideoUrl (heroImages ?a') = map generatedVideoUrl (heroImages a)"
    by (simp only: heroImages_update videoStatus_keeps_url)
  show "map (\<lambda>h. h\<lparr>videoStatus := None\<rparr>) (heroImages ?a') =
          map (\<lambda>h. h\<lparr>videoStatus := None\<rparr>) (heroImages a)"
    by (simp only: heroImages_update videoStatus_keeps_rest)
  fix h assume "h \<in> set (heroImages ?a')" "hero_id h = heroId"
  then show "videoStatus h = Some Failed"
    by (simp only: heroImages_update) (rule videoStatus_sets)
qed

theorem video_failure_frame_witness:
  "map_option (map (\<lambda>h. (videoStatus h, generatedVideoUrl h, hero_status h,
                          hero_generatedImageUrl h)) \<circ> heroImages)
     (analysis (settled (handleGenerateHeroVideo droppedEnv doneState ''h1''))) =
     Some [(Some Failed, Some ''https://cdn.example/old.mp4'', Completed,
            Some ''data:image/png;base64,T0xE'')]
   \<and> map_option sections (analysis (settled (handleGenerateHeroVideo droppedEnv doneState ''h1'')))
       = map_option sections (analysis doneState)"
proof -
  have t: "truthy (hero_generatedImageUrl heroDone)" by (simp add: donePlan_items)
  have s: "videoProvider (settings droppedEnv) = Some grok"
    "grokApiKey (settings droppedEnv) = Some ''gk''"
    by (simp_all add: droppedEnv_def demoEnv_def)
  have p: "pollTask (grokTask droppedEnv ''gk'' ''t1'') 0 =
             (Inl (Error ''Failed to fetch''), [Sleep 5000, GetTask 0])"
    by (rule pollTask_first) (simp add: droppedEnv_def pollStep_rejects)
  have gg: "grokGenerate droppedEnv ''gk'' (cleanBase64 ''data:image/png;base64,T0xE'')
             (if ''Slow cinematic pan'' = [] then ''slow motion cinematic shot''
              else ''Slow cinematic pan'') =
           Body \<lparr>success = True, task_id = Some ''t1'', gen_error = None\<rparr>"
    by (simp add: droppedEnv_def demoEnv_def)
  have g: "generateGrokVideo droppedEnv ''data:image/png;base64,T0xE'' ''Slow cinematic pan''
             (Some ''gk'') = (Inl (Error ''Failed to fetch''), [PostGenerate, Sleep 5000, GetTask 0])"
    using generateGrokVideo_polling [OF _ gg, of "''t1''"] p by simp
  have v: "generateProductVideo droppedEnv (or_default (hero_generatedImageUrl heroDone) [])
             ''image/png'' (or_default (videoPrompt heroDone) ''Slow cinematic pan'') =
           Some (Inl (Error ''Failed to fetch''))"
    using s g by (simp add: generateProductVideo_def donePlan_items or_default_def)
  from video_failure_frame [OF doneState_parts(1) doneState_parts(6) t v]
  obtain a' where a': "analysis (settled (handleGenerateHeroVideo droppedEnv doneState ''h1'')) = Some a'"
    and eq: "a' = donePlan\<lparr>heroImages :=
                     map (\<lambda>h. if hero_id h = ''h1'' then h\<lparr>videoStatus := Some Failed\<rparr> else h)
                         (heroImages donePlan)\<rparr>"
    and sec: "sections a' = sections donePlan"
    by blast
  have hs: "heroImages a' = [heroDone\<lparr>videoStatus := Some Failed\<rparr>]"
    by (simp add: eq donePlan_items)
  have f: "hero_status heroDone = Completed" by (simp add: heroDone_def)
  have 1: "map (\<lambda>h. (videoStatus h, generatedVideoUrl h, hero_status h, hero_generatedImageUrl h))
             (heroImages a') =
           [(Some Failed, Some ''https://cdn.example/old.mp4'', Completed,
             Some ''data:image/png;base64,T0xE'')]"
    by (simp add: hs donePlan_items f)
  show ?thesis using a' 1 sec by (simp add: doneState_parts)
qed

subsection \<open>Image status and generated image\<close>

text \<open>
  After \<open>handleGenerateHeroImage\<close> has settled, the hero images it targeted are completed
  with a generated image, or failed with none: the image status and the presence of the
  image, which the gate of video generation reads, change together.
\<close>

lemma hero_image_settles:
  assumes "analysis st = Some a" "inputData st = Some input"
    and "find (\<lambda>h. hero_id h = heroId) (heroImages a) = Some hero"
  shows "(\<exists>url. analysis (settled (handleGenerateHeroImage env st heroId)) =
            Some (a\<lparr>heroImages := map (\<lambda>h. if hero_id h = heroId
                         then h\<lparr>hero_status := Completed, hero_generatedImageUrl := Some url\<rparr>
                         else h) (heroImages a)\<rparr>))
         \<or> analysis (settled (handleGenerateHeroImage env st heroId)) =
            Some (a\<lparr>heroImages := map (\<lambda>h. if hero_id h = heroId
                         then h\<lparr>hero_status := Failed, hero_generatedImageUrl := None\<rparr>
                         else h) (heroImages a)\<rparr>)"
proof (cases "fst (requestImage env input (hero_referenceImageId hero) (hero_imagePrompt hero))")
  case (Inl e)
  then show ?thesis using hero_failed(2) [OF assms] by blast
next
  case (Inr url)
  have "analysis (settled (handleGenerateHeroImage env st heroId)) =
          Some (a\<lparr>heroImages := map (\<lambda>h. if hero_id h = heroId
                       then h\<lparr>hero_status := Completed, hero_generatedImageUrl := Some url\<rparr>
                       else h) (heroImages a)\<rparr>)"
    by (simp add: handleGenerateHeroImage_unfold [OF assms(1,3)]
          generateImageForItem_completed [OF assms(2) Inr] heroUpdater_twice [OF assms(1)])
  then show ?thesis by blast
qed

subsection \<open>The gate of video generation\<close>






















lemma generateImageForItem_settles:
  assumes "inputData st = Some input"
  shows "settled (generateImageForItem env st itemId rid prompt upd) =
           imageSettles env (language st) upd (fst (requestImage env input rid prompt))
             (upd Generating None st)"
proof (cases "fst (requestImage env input rid prompt)")
  case (Inl e)
  then show ?thesis
    by (simp add: generateImageForItem_failed [OF assms Inl] imageSettles_def)
next
  case (Inr url)
  then show ?thesis
    by (simp add: generateImageForItem_completed [OF assms Inr] imageSettles_def)
qed

lemma handleGenerateHeroVideo_settles:
  assumes "analysis st = Some a"
    and "find (\<lambda>h. hero_id h = heroId) (heroImages a) = Some hero"
    and "truthy (hero_generatedImageUrl hero)"
    and "generateProductVideo env (or_default (hero_generatedImageUrl hero) []) ''image/png''
           (or_default (videoPrompt hero) ''Slow cinematic pan'') = Some outcome"
  shows "settled (handleGenerateHeroVideo env st heroId) =
           videoSettles heroId outcome (setVideoStatus heroId Generating st)"
proof (cases outcome)
  case (Inl e)
  have sh: "showSettings (setVideoStatus heroId Generating st) = showSettings st"
    by (simp add: setVideoStatus_def)
  show ?thesis
    using assms(4) Inl
    by (simp add: handleGenerateHeroVideo_failed [OF assms(1,2,3)] videoSettles_def sh)
next
  case (Inr url)
  then show ?thesis
    using assms by (simp add: handleGenerateHeroVideo_def Let_def videoSettles_def)
qed


















end
